theory Spec2Isabelle
  imports
    Main
    "HOL-Library.Char_ord"
    "HOL-Library.List_Lexorder"
    "HOL-Library.AList"
    "HOL-Library.Multiset"
begin

section \<open>Shared data: errors and JSON documents\<close>

text \<open>
  Go strings are byte sequences compared bytewise; \<^typ>\<open>string\<close> with the
  lexicographic order on character codes is the same order.

  A violation reported by the schema validation library (gojsonschema.ResultError):
  where it is in the document, what is wrong, and the offending value.
\<close>

datatype ResultError = ResultError (err_field: string) (err_description: string) (err_value: string)

text \<open>
  The error values that travel through the program. \<open>InvalidSBOMError\<close> carries a
  message, the wrapped error and the schema violations, as \<open>NewInvalidSBOMError\<close>
  receives them; \<open>ErrorString\<close> is an error made by \<open>fmt.Errorf\<close> or by the logger;
  \<open>LibraryError\<close> is any other error handed back by a collaborator.
\<close>

datatype error =
    JsonSyntaxError nat
  | JsonUnmarshalTypeError nat
  | UnsupportedFormatError string string string string string
  | InvalidSBOMError string "error option" "ResultError list"
  | ErrorString string
  | LibraryError string

fun IsInvalidSBOMError :: "error \<Rightarrow> bool" where
  "IsInvalidSBOMError (InvalidSBOMError _ _ _) = True"
| "IsInvalidSBOMError _ = False"

fun IsJsonSyntaxError :: "error \<Rightarrow> bool" where
  "IsJsonSyntaxError (JsonSyntaxError _) = True"
| "IsJsonSyntaxError _ = False"

fun IsUnsupportedFormatError :: "error \<Rightarrow> bool" where
  "IsUnsupportedFormatError (UnsupportedFormatError _ _ _ _ _) = True"
| "IsUnsupportedFormatError _ = False"

text \<open>
  The JSON documents the marshalers build hold strings and nested objects only. An object
  is its list of members in the order of the encoded text. A Go value of type
  \<open>map[string]interface{}\<close> is an association list with distinct keys. A string of
  a document is the string its text denotes, escapes resolved.
\<close>

datatype json = JString string | JObject "(string \<times> json) list"

type_synonym gomap = "(string \<times> json) list"

text \<open>
  \<open>json.Marshal\<close> is library code. It coerces every string to valid UTF-8: a byte that
  does not start a well-formed encoding of a code point is replaced by the replacement
  character U+FFFD, a well-formed encoding is kept. \<open>DecodeRune_size\<close> is the length
  of the well-formed encoding at the head of a string, or 0 when there is none.
\<close>

definition in_range :: "char \<Rightarrow> nat \<Rightarrow> nat \<Rightarrow> bool" where
  "in_range c lo hi = (lo \<le> of_char c \<and> of_char c \<le> hi)"

fun continuation :: "nat \<Rightarrow> string \<Rightarrow> bool" where
  "continuation 0 cs = True"
| "continuation (Suc n) [] = False"
| "continuation (Suc n) (c # cs) = (in_range c 0x80 0xBF \<and> continuation n cs)"

definition following :: "nat \<Rightarrow> nat \<Rightarrow> nat \<Rightarrow> string \<Rightarrow> bool" where
  "following lo hi n cs =
     (case cs of [] \<Rightarrow> False | c # cs' \<Rightarrow> in_range c lo hi \<and> continuation n cs')"

definition DecodeRune_size :: "string \<Rightarrow> nat" where
  "DecodeRune_size s =
     (case s of
        [] \<Rightarrow> 0
      | c # cs \<Rightarrow>
          (let b = of_char c :: nat
           in if b < 0x80 then 1
              else if 0xC2 \<le> b \<and> b \<le> 0xDF then (if following 0x80 0xBF 0 cs then 2 else 0)
              else if b = 0xE0 then (if following 0xA0 0xBF 1 cs then 3 else 0)
              else if b = 0xED then (if following 0x80 0x9F 1 cs then 3 else 0)
              else if 0xE1 \<le> b \<and> b \<le> 0xEF then (if following 0x80 0xBF 1 cs then 3 else 0)
              else if b = 0xF0 then (if following 0x90 0xBF 2 cs then 4 else 0)
              else if 0xF1 \<le> b \<and> b \<le> 0xF3 then (if following 0x80 0xBF 2 cs then 4 else 0)
              else if b = 0xF4 then (if following 0x80 0x8F 2 cs then 4 else 0)
              else 0))"

definition RuneError :: string where
  "RuneError = [CHR 0xEF, CHR 0xBF, CHR 0xBD]"

text \<open>
  The coercion, byte by byte; \<open>k\<close> is the number of bytes of the current encoding that
  are still to be copied.
\<close>

fun coerce :: "nat \<Rightarrow> string \<Rightarrow> string" where
  "coerce k [] = []"
| "coerce (Suc k) (c # cs) = c # coerce k cs"
| "coerce 0 (c # cs) =
     (case DecodeRune_size (c # cs) of
        0 \<Rightarrow> RuneError @ coerce 0 cs
      | Suc n \<Rightarrow> c # coerce n cs)"

definition json_string :: "string \<Rightarrow> string" where
  "json_string s = coerce 0 s"

definition utf8_ValidString :: "string \<Rightarrow> bool" where
  "utf8_ValidString s = (json_string s = s)"

text \<open>
  \<open>json.Marshal\<close> on a map writes the members sorted by key, nested maps included.
  \<open>json.Unmarshal\<close> into a map reads the members of an object, a later member
  replacing an earlier one of the same key, and rejects any other document.
\<close>

fun canonical :: "json \<Rightarrow> json" where
  "canonical (JString s) = JString (json_string s)"
| "canonical (JObject ms) =
     JObject (sort_key fst (map (\<lambda>m. (json_string (fst m), canonical (snd m))) ms))"

definition json_Marshal :: "gomap \<Rightarrow> error + json" where
  "json_Marshal m = Inr (canonical (JObject m))"

definition json_Unmarshal_map :: "json \<Rightarrow> error + gomap" where
  "json_Unmarshal_map j =
     (case j of
        JObject ms \<Rightarrow> Inr (foldl (\<lambda>m kv. AList.update (fst kv) (snd kv) m) [] ms)
      | JString _ \<Rightarrow> Inl (JsonUnmarshalTypeError 0))"

section \<open>Custom marshalers (schema/cyclonedx\_marshal.go)\<close>

record CDXAttachment =
  ContentType :: string
  Encoding :: string
  Content :: string

record CDXLicense =
  Id' :: string
  Name :: string
  Url :: string
  Text :: CDXAttachment

record CDXLicenseChoice =
  License :: CDXLicense
  Expression :: string

definition CDXAttachment_zero :: CDXAttachment where
  "CDXAttachment_zero = \<lparr>ContentType = [], Encoding = [], Content = []\<rparr>"

definition CDXLicense_zero :: CDXLicense where
  "CDXLicense_zero = \<lparr>Id' = [], Name = [], Url = [], Text = CDXAttachment_zero\<rparr>"

definition CDXAttachment_MarshalJSON :: "CDXAttachment \<Rightarrow> error + json" where
  "CDXAttachment_MarshalJSON v =
     (let temp = [];
          temp = (if ContentType v \<noteq> [] then
                    AList.update ''contentType'' (JString (ContentType v)) temp else temp);
          temp = (if Encoding v \<noteq> [] then
                    AList.update ''encoding'' (JString (Encoding v)) temp else temp);
          temp = (if Content v \<noteq> [] then
                    AList.update ''content'' (JString (Content v)) temp else temp)
      in json_Marshal temp)"

definition CDXLicense_MarshalJSON :: "CDXLicense \<Rightarrow> error + json" where
  "CDXLicense_MarshalJSON v =
     (let temp = [];
          temp = (if Id' v \<noteq> [] then AList.update ''id'' (JString (Id' v)) temp else temp);
          temp = (if Name v \<noteq> [] then AList.update ''name'' (JString (Name v)) temp else temp);
          temp = (if Url v \<noteq> [] then AList.update ''url'' (JString (Url v)) temp else temp)
      in if Text v \<noteq> CDXAttachment_zero then
           (case CDXAttachment_MarshalJSON (Text v) of
              Inl err \<Rightarrow> Inl err
            | Inr bData \<Rightarrow>
                (case json_Unmarshal_map bData of
                   Inl err \<Rightarrow> Inl err
                 | Inr m \<Rightarrow> json_Marshal (AList.update ''text'' (JObject m) temp)))
         else json_Marshal temp)"

definition CDXLicenseChoice_MarshalJSON :: "CDXLicenseChoice \<Rightarrow> error + json" where
  "CDXLicenseChoice_MarshalJSON v =
     (let temp = [];
          temp = (if Expression v \<noteq> [] then
                    AList.update ''expression'' (JString (Expression v)) temp else temp)
      in if License v \<noteq> CDXLicense_zero then
           (case CDXLicense_MarshalJSON (License v) of
              Inl err \<Rightarrow> Inl err
            | Inr bData \<Rightarrow>
                (case json_Unmarshal_map bData of
                   Inl err \<Rightarrow> Inl err
                 | Inr m \<Rightarrow> json_Marshal (AList.update ''license'' (JObject m) temp)))
         else json_Marshal temp)"

text \<open>
  Modelled from the spec: the declaration of \<open>CDXAttachment\<close> with its JSON field
  names, and hence the parse of an attachment, is not in the source at hand. Parsing reads
  the members \<open>contentType\<close>, \<open>encoding\<close> and \<open>content\<close> of an object into the
  three string fields, leaves the field of an absent member at its empty default, and
  ignores any other member; a member of the wrong type is an unmarshal type error.
\<close>

definition attachment_member :: "CDXAttachment \<Rightarrow> string \<times> json \<Rightarrow> error + CDXAttachment" where
  "attachment_member a kv =
     (if fst kv \<in> {''contentType'', ''encoding'', ''content''} then
        (case snd kv of
           JObject _ \<Rightarrow> Inl (JsonUnmarshalTypeError 0)
         | JString s \<Rightarrow>
             Inr (if fst kv = ''contentType'' then a\<lparr>ContentType := s\<rparr>
                  else if fst kv = ''encoding'' then a\<lparr>Encoding := s\<rparr>
                  else a\<lparr>Content := s\<rparr>))
      else Inr a)"

fun attachment_members :: "CDXAttachment \<Rightarrow> (string \<times> json) list \<Rightarrow> error + CDXAttachment" where
  "attachment_members a [] = Inr a"
| "attachment_members a (kv # ms) =
     (case attachment_member a kv of
        Inl err \<Rightarrow> Inl err
      | Inr a' \<Rightarrow> attachment_members a' ms)"

definition CDXAttachment_UnmarshalJSON :: "json \<Rightarrow> error + CDXAttachment" where
  "CDXAttachment_UnmarshalJSON j =
     (case j of
        JObject ms \<Rightarrow> attachment_members CDXAttachment_zero ms
      | JString _ \<Rightarrow> Inl (JsonUnmarshalTypeError 0))"

section \<open>Documents and output devices\<close>

text \<open>
  Modelled from the spec: the document type (\<open>schema.BOM\<close>, named \<open>schema.Sbom\<close> in
  the validation code) and its format descriptor are declared outside the source at hand.
  A document is its file name, raw bytes, parsed JSON tree, detected format, resolved
  schema file, the typed projection added by a full unmarshal, and the resource
  collection. A format is identified by its canonical name.
\<close>

record FormatSchema =
  CanonicalName :: string

record FormatSchemaInstance =
  File :: string

record CDXResourceInfo =
  Type :: string
  Name :: string
  Version :: string
  BOMRef :: string

record Entry =
  Key :: string
  Value :: CDXResourceInfo

record BOM =
  filename :: string
  rawBytes :: string
  JsonMap :: gomap
  FormatInfo :: FormatSchema
  SchemaInfo :: FormatSchemaInstance
  CdxBom :: "gomap option"
  ResourceMap :: "Entry list"

type_synonym Sbom = BOM

definition IsCycloneDx :: "FormatSchema \<Rightarrow> bool" where
  "IsCycloneDx format = (CanonicalName format = ''CycloneDX'')"

definition GetFilename :: "BOM \<Rightarrow> string" where
  "GetFilename document = filename document"

definition Entries :: "Entry list \<Rightarrow> Entry list" where
  "Entries m = m"

text \<open>
  An \<open>io.Writer\<close>: the bytes it has taken so far, and whether its n-th \<open>Write\<close> call
  succeeds. A failed call writes nothing and returns an error.
\<close>

record writer =
  accepts :: "nat \<Rightarrow> bool"
  calls :: nat
  written :: string

definition Write :: "writer \<Rightarrow> string \<Rightarrow> writer \<times> error option" where
  "Write w p =
     (if accepts w (calls w)
      then (w\<lparr>calls := Suc (calls w), written := written w @ p\<rparr>, None)
      else (w\<lparr>calls := Suc (calls w)\<rparr>, Some (LibraryError ''write failed'')))"

text \<open>\<open>fmt.Fprintf\<close> with its result dropped, as every call of the listing code does.\<close>

definition Fprintf :: "writer \<Rightarrow> string \<Rightarrow> writer" where
  "Fprintf w p = fst (Write w p)"

definition newline :: string where
  "newline = [CHR 0x0A]"

definition tab :: string where
  "tab = [CHR 0x09]"

fun strings_Join :: "string list \<Rightarrow> string \<Rightarrow> string" where
  "strings_Join [] sep = []"
| "strings_Join [x] sep = x"
| "strings_Join (x # y # ys) sep = x @ sep @ strings_Join (y # ys) sep"

text \<open>
  The flags of the command line that the two commands read (package \<open>utils\<close>). A
  filter of the \<open>--where\<close> flag is only handed on to the collectors.
\<close>

record PersistentCommandFlags =
  InputFile :: string
  OutputFile :: string
  OutputFormat :: string

record ResourceCommandFlags =
  ResourceType :: string

type_synonym WhereFilter = string

section \<open>The environment of the commands\<close>

text \<open>
  What both commands take from the rest of the repository and from libraries: the
  constants they name, whose declarations are outside the source at hand, the global
  input file flag, reading a file, the decoder of \<open>encoding/json\<close> on a whole document
  and the detection of format and schema.
\<close>

record env =
  FORMAT_TEXT :: string
  FORMAT_JSON :: string
  FORMAT_CSV :: string
  FORMAT_MARKDOWN :: string
  FORMAT_ANY :: string
  CMD_LICENSE :: string
  CMD_VALIDATE :: string
  MSG_FORMAT_UNSUPPORTED_COMMAND :: string
  MSG_SCHEMA_ERRORS :: string
  RESOURCE_TYPE_DEFAULT :: string
  RESOURCE_TYPE_COMPONENT :: string
  RESOURCE_TYPE_SERVICE :: string
  GlobalFlags_InputFile :: string
  os_ReadFile :: "string \<Rightarrow> error + string"
  json_Unmarshal_document :: "string \<Rightarrow> error + gomap"
  FindFormatAndSchema :: "gomap \<Rightarrow> error + FormatSchema \<times> FormatSchemaInstance"

definition NewBOM :: "string \<Rightarrow> BOM" where
  "NewBOM inputFile =
     \<lparr>filename = inputFile, rawBytes = [], JsonMap = [],
      FormatInfo = \<lparr>CanonicalName = []\<rparr>, SchemaInfo = \<lparr>File = []\<rparr>,
      CdxBom = None, ResourceMap = []\<rparr>"

text \<open>
  Modelled from the spec: the loader \<open>LoadInputBOMFileAndDetectSchema\<close> (named
  \<open>LoadInputSbomFileAndDetectSchema\<close> in the validation code) is not in the source at
  hand. It creates the document for the input file, reads its bytes, parses them as JSON
  and detects format and schema; the first step that fails ends the load with that
  step's error. A document that is not valid JSON fails with the decoder's syntax error,
  as the comment at the call in \<open>Validate\<close> says.
\<close>

definition LoadInputBOMFileAndDetectSchema :: "'a env_scheme \<Rightarrow> BOM \<times> error option" where
  "LoadInputBOMFileAndDetectSchema env =
     (let inputFile = GlobalFlags_InputFile env;
          document = NewBOM inputFile
      in case os_ReadFile env inputFile of
           Inl err \<Rightarrow> (document, Some err)
         | Inr bytes \<Rightarrow>
             (let document = document\<lparr>rawBytes := bytes\<rparr>
              in case json_Unmarshal_document env bytes of
                   Inl err \<Rightarrow> (document, Some err)
                 | Inr m \<Rightarrow>
                     (let document = document\<lparr>JsonMap := m\<rparr>
                      in case FindFormatAndSchema env m of
                           Inl err \<Rightarrow> (document, Some err)
                         | Inr (format, schema) \<Rightarrow>
                             (document\<lparr>FormatInfo := format, SchemaInfo := schema\<rparr>, None))))"

definition LoadInputSbomFileAndDetectSchema :: "'a env_scheme \<Rightarrow> Sbom \<times> error option" where
  "LoadInputSbomFileAndDetectSchema env = LoadInputBOMFileAndDetectSchema env"

section \<open>Resource listing (cmd/validate.go: ListResources and the formatters)\<close>

text \<open>
  What the listing code takes in addition: the full unmarshal and the collectors of the
  document, the row helpers of the report formatters, the record encoder of
  \<open>encoding/csv\<close> and the column alignment of \<open>text/tabwriter\<close>.
\<close>

record resource_env = env +
  UnmarshalCycloneDXBOM :: "BOM \<Rightarrow> BOM \<times> error option"
  HashComponentResources :: "WhereFilter list \<Rightarrow> BOM \<Rightarrow> BOM \<times> error option"
  HashServiceResources :: "WhereFilter list \<Rightarrow> BOM \<Rightarrow> BOM \<times> error option"
  createTitleTextSeparators :: "string list \<Rightarrow> string list"
  createMarkdownRow :: "string list \<Rightarrow> string"
  createMarkdownColumnAlignment :: "string list \<Rightarrow> string list"
  csv_record :: "string list \<Rightarrow> string"
  tabwriter_align :: "string \<Rightarrow> string"

definition RESOURCE_FILTER_KEY_TYPE :: string where
  "RESOURCE_FILTER_KEY_TYPE = ''type''"

definition RESOURCE_FILTER_KEY_NAME :: string where
  "RESOURCE_FILTER_KEY_NAME = ''name''"

definition RESOURCE_FILTER_KEY_VERSION :: string where
  "RESOURCE_FILTER_KEY_VERSION = ''version''"

definition RESOURCE_FILTER_KEY_BOMREF :: string where
  "RESOURCE_FILTER_KEY_BOMREF = ''bom-ref''"

definition RESOURCE_LIST_TITLES :: "string list" where
  "RESOURCE_LIST_TITLES =
     [RESOURCE_FILTER_KEY_TYPE, RESOURCE_FILTER_KEY_NAME,
      RESOURCE_FILTER_KEY_VERSION, RESOURCE_FILTER_KEY_BOMREF]"

definition MSG_OUTPUT_NO_RESOURCES_FOUND :: string where
  "MSG_OUTPUT_NO_RESOURCES_FOUND = ''[WARN] no matching resources found for query''"

text \<open>
  The events of collecting resources, in the order they happen.
\<close>

datatype collect_event =
    EvUnmarshalCycloneDXBOM
  | EvHashComponentResources
  | EvHashServiceResources

definition NewUnsupportedFormatForCommandError ::
    "string \<Rightarrow> string \<Rightarrow> string \<Rightarrow> string \<Rightarrow> error" where
  "NewUnsupportedFormatForCommandError format f cmd flags =
     UnsupportedFormatError [] f format cmd flags"

definition loadDocumentResources ::
    "resource_env \<Rightarrow> BOM \<Rightarrow> string \<Rightarrow> WhereFilter list
       \<Rightarrow> BOM \<times> error option \<times> collect_event list" where
  "loadDocumentResources env document resourceType whereFilters =
     (if \<not> IsCycloneDx (FormatInfo document) then
        (document,
         Some (NewUnsupportedFormatForCommandError
                 (CanonicalName (FormatInfo document)) (GetFilename document)
                 (CMD_LICENSE env) (FORMAT_ANY env)),
         [])
      else
        (case UnmarshalCycloneDXBOM env document of
           (document, Some err) \<Rightarrow> (document, Some err, [EvUnmarshalCycloneDXBOM])
         | (document, None) \<Rightarrow>
             (let tr = [EvUnmarshalCycloneDXBOM];
                  (document, err, tr) =
                    (if resourceType = RESOURCE_TYPE_DEFAULT env
                        \<or> resourceType = RESOURCE_TYPE_COMPONENT env
                     then (case HashComponentResources env whereFilters document of
                             (document, err) \<Rightarrow> (document, err, tr @ [EvHashComponentResources]))
                     else (document, None, tr))
              in if err \<noteq> None then (document, err, tr)
                 else if resourceType = RESOURCE_TYPE_DEFAULT env
                        \<or> resourceType = RESOURCE_TYPE_SERVICE env
                 then (case HashServiceResources env whereFilters document of
                         (document, err) \<Rightarrow> (document, err, tr @ [EvHashServiceResources]))
                 else (document, None, tr))))"

text \<open>
  \<open>sort.Slice\<close> is library code: it reorders the slice so that no element is \<open>less\<close>
  than one before it, and promises nothing about the order of equal elements. The model is
  the insertion sort the library runs on short slices: element \<open>i\<close> moves left while it
  is \<open>less\<close> than its left neighbour. The sorted prefix is kept reversed.
\<close>

fun insert_left :: "('a \<Rightarrow> 'a \<Rightarrow> bool) \<Rightarrow> 'a \<Rightarrow> 'a list \<Rightarrow> 'a list" where
  "insert_left lt x [] = [x]"
| "insert_left lt x (y # ys) =
     (if lt x y then y # insert_left lt x ys else x # y # ys)"

definition sort_Slice :: "('a \<Rightarrow> 'a \<Rightarrow> bool) \<Rightarrow> 'a list \<Rightarrow> 'a list" where
  "sort_Slice lt xs = rev (foldl (\<lambda>acc x. insert_left lt x acc) [] xs)"

text \<open>The comparison each of the three formatters hands to \<open>sort.Slice\<close>.\<close>

definition resource_less :: "Entry \<Rightarrow> Entry \<Rightarrow> bool" where
  "resource_less e1 e2 =
     (let resource1 = Value e1; resource2 = Value e2
      in if Type resource1 \<noteq> Type resource2 then Type resource1 < Type resource2
         else Name resource1 < Name resource2)"

definition resource_line :: "CDXResourceInfo \<Rightarrow> string list" where
  "resource_line resourceInfo =
     [Type resourceInfo, Name resourceInfo, Version resourceInfo, BOMRef resourceInfo]"

text \<open>
  The text formatter writes into a \<open>tabwriter\<close>, which holds the text back, aligns its
  columns and passes it on to the output device when flushed (here: when the function
  returns).
\<close>

record tabwriter =
  tw_output :: writer
  tw_buf :: string

definition tw_Init :: "writer \<Rightarrow> tabwriter" where
  "tw_Init output = \<lparr>tw_output = output, tw_buf = []\<rparr>"

definition tw_Fprintf :: "tabwriter \<Rightarrow> string \<Rightarrow> tabwriter" where
  "tw_Fprintf w p = w\<lparr>tw_buf := tw_buf w @ p\<rparr>"

definition tw_Flush :: "resource_env \<Rightarrow> tabwriter \<Rightarrow> writer" where
  "tw_Flush env w = Fprintf (tw_output w) (tabwriter_align env (tw_buf w))"

fun text_rows :: "tabwriter \<Rightarrow> Entry list \<Rightarrow> tabwriter" where
  "text_rows w [] = w"
| "text_rows w (entry # entries) =
     (let resourceInfo = Value entry
      in text_rows
           (tw_Fprintf w (Type resourceInfo @ tab @ Name resourceInfo @ tab
                            @ Version resourceInfo @ tab @ BOMRef resourceInfo @ newline))
           entries)"

definition DisplayResourceListText :: "resource_env \<Rightarrow> BOM \<Rightarrow> writer \<Rightarrow> writer" where
  "DisplayResourceListText env bom output =
     (let w = tw_Init output;
          underlines = createTitleTextSeparators env RESOURCE_LIST_TITLES;
          w = tw_Fprintf w (strings_Join RESOURCE_LIST_TITLES tab @ newline);
          w = tw_Fprintf w (strings_Join underlines tab @ newline);
          entries = Entries (ResourceMap bom)
      in if length entries = 0 then
           tw_Flush env (tw_Fprintf w (MSG_OUTPUT_NO_RESOURCES_FOUND @ newline))
         else
           tw_Flush env (text_rows w (sort_Slice resource_less entries)))"

text \<open>
  The CSV formatter. \<open>csv.Writer.Write\<close> encodes one record and hands it to the device;
  its error is the device's.
\<close>

definition csv_Write :: "resource_env \<Rightarrow> writer \<Rightarrow> string list \<Rightarrow> writer \<times> error option" where
  "csv_Write env w row = Write w (csv_record env row)"

fun csv_rows :: "resource_env \<Rightarrow> writer \<Rightarrow> error option \<Rightarrow> Entry list \<Rightarrow> writer \<times> error option" where
  "csv_rows env w err [] = (w, err)"
| "csv_rows env w err (entry # entries) =
     (case csv_Write env w (resource_line (Value entry)) of
        (w, Some e) \<Rightarrow> csv_rows env w (Some (ErrorString ''csv.Write'')) entries
      | (w, None) \<Rightarrow> csv_rows env w None entries)"

definition DisplayResourceListCSV :: "resource_env \<Rightarrow> BOM \<Rightarrow> writer \<Rightarrow> writer \<times> error option" where
  "DisplayResourceListCSV env bom output =
     (case csv_Write env output RESOURCE_LIST_TITLES of
        (w, Some err) \<Rightarrow> (w, Some (ErrorString ''error writing to output''))
      | (w, None) \<Rightarrow>
          (let entries = Entries (ResourceMap bom)
           in if length entries = 0 then
                (let currentRow = [MSG_OUTPUT_NO_RESOURCES_FOUND]
                 in case csv_Write env w currentRow of
                      (w, Some err) \<Rightarrow> (w, Some (ErrorString ''error writing to output''))
                    | (w, None) \<Rightarrow> (w, Some (ErrorString (hd currentRow))))
              else csv_rows env w None (sort_Slice resource_less entries)))"

fun markdown_rows :: "resource_env \<Rightarrow> writer \<Rightarrow> Entry list \<Rightarrow> writer" where
  "markdown_rows env w [] = w"
| "markdown_rows env w (entry # entries) =
     (let lineRow = createMarkdownRow env (resource_line (Value entry))
      in markdown_rows env (Fprintf w (lineRow @ newline)) entries)"

definition DisplayResourceListMarkdown ::
    "resource_env \<Rightarrow> BOM \<Rightarrow> writer \<Rightarrow> writer \<times> error option" where
  "DisplayResourceListMarkdown env bom output =
     (let titleRow = createMarkdownRow env RESOURCE_LIST_TITLES;
          w = Fprintf output (titleRow @ newline);
          alignments = createMarkdownColumnAlignment env RESOURCE_LIST_TITLES;
          alignmentRow = createMarkdownRow env alignments;
          w = Fprintf w (alignmentRow @ newline);
          entries = Entries (ResourceMap bom)
      in if length entries = 0 then
           (Fprintf w (MSG_OUTPUT_NO_RESOURCES_FOUND @ newline),
            Some (ErrorString MSG_OUTPUT_NO_RESOURCES_FOUND))
         else (markdown_rows env w (sort_Slice resource_less entries), None))"

text \<open>
  \<open>ListResources\<close> returns its error, the device after the listing, the document and the
  events of collecting. It drops what the CSV and Markdown formatters return.
\<close>

definition ListResources ::
    "resource_env \<Rightarrow> writer \<Rightarrow> PersistentCommandFlags \<Rightarrow> ResourceCommandFlags
       \<Rightarrow> WhereFilter list \<Rightarrow> error option \<times> writer \<times> BOM \<times> collect_event list" where
  "ListResources env output persistentFlags resourceFlags whereFilters =
     (case LoadInputBOMFileAndDetectSchema env of
        (document, Some err) \<Rightarrow> (Some err, output, document, [])
      | (document, None) \<Rightarrow>
          (case loadDocumentResources env document (ResourceType resourceFlags) whereFilters of
             (document, Some err, tr) \<Rightarrow> (Some err, output, document, tr)
           | (document, None, tr) \<Rightarrow>
               (let format = OutputFormat persistentFlags;
                    w = (if format = FORMAT_TEXT env then
                           DisplayResourceListText env document output
                         else if format = FORMAT_CSV env then
                           fst (DisplayResourceListCSV env document output)
                         else if format = FORMAT_MARKDOWN env then
                           fst (DisplayResourceListMarkdown env document output)
                         else DisplayResourceListText env document output)
                in (None, w, document, tr))))"

section \<open>Validation (cmd/validate.go: Validate)\<close>

definition VALID :: bool where
  "VALID = True"

definition INVALID :: bool where
  "INVALID = False"

definition FLAG_VALIDATE_CUSTOM :: string where
  "FLAG_VALIDATE_CUSTOM = ''custom''"

definition PROTOCOL_PREFIX_FILE :: string where
  "PROTOCOL_PREFIX_FILE = ''file://''"

definition RETRY :: nat where
  "RETRY = 3"

record ValidateCommandFlags =
  ForcedJsonSchemaFile :: string
  SchemaVariant :: string
  CustomValidation :: bool
  ColorizeErrorOutput :: bool
  MaxNumErrors :: int
  ShowErrorValue :: bool

text \<open>
  The schema library (gojsonschema). A loader names where a JSON text comes from; both
  constructors return a loader, never nil. A compiled schema remembers its loader. The
  result of an evaluation holds its verdict and its violations.
\<close>

datatype JSONLoader = ReferenceLoader string | BytesLoader string

definition NewReferenceLoader :: "string \<Rightarrow> JSONLoader" where
  "NewReferenceLoader source = ReferenceLoader source"

definition NewBytesLoader :: "string \<Rightarrow> JSONLoader" where
  "NewBytesLoader source = BytesLoader source"

datatype Schema = Schema JSONLoader

record Result =
  Valid :: bool
  Errors :: "ResultError list"

text \<open>
  What validation takes in addition to the common environment: the read of an embedded
  schema file, the compilation of a schema, whose outcome may differ from one attempt to
  the next (the attempt number is its first argument, counted from 0), the evaluation of
  a document, which returns a result pointer (nil is \<open>None\<close>) and an error, the typed
  unmarshal and the checks of custom validation, and the message of an error.
\<close>

record validate_env = env +
  SBOMSchemaFiles_ReadFile :: "string \<Rightarrow> error + string"
  NewSchema :: "nat \<Rightarrow> JSONLoader \<Rightarrow> error + Schema"
  Schema_Validate :: "Schema \<Rightarrow> JSONLoader \<Rightarrow> Result option \<times> error option"
  UnMarshalDocument :: "gomap \<Rightarrow> gomap option \<times> error option"
  validateCustomCDXDocument :: "Sbom \<Rightarrow> error option"
  Error_message :: "error \<Rightarrow> string"

text \<open>
  The events of a validation, in the order they happen: calls of collaborators and the
  log lines the claims are about.
\<close>

datatype validate_event =
    EvReadFile string
  | EvNewSchema nat JSONLoader
  | EvWarnRetry
  | EvSchemaValidate Schema JSONLoader
  | EvFormatSchemaErrors "ResultError list" string
  | EvWarnInvalidFormat
  | EvUnMarshalDocument
  | EvValidateCustomCDXDocument
  | EvDisplayJSONErrorDetails
  | EvLogInvalidState
  | EvLogError
  | EvLogValid bool

text \<open>
  A call of \<open>Validate\<close> returns its four results, or panics on a nil pointer.
\<close>

datatype validate_result =
    Return bool Sbom "ResultError list" "error option"
  | Panic

definition NewUnsupportedFormatError ::
    "string \<Rightarrow> string \<Rightarrow> string \<Rightarrow> string \<Rightarrow> string \<Rightarrow> error" where
  "NewUnsupportedFormatError m f format cmd flags = UnsupportedFormatError m f format cmd flags"

definition NewInvalidSBOMError ::
    "Sbom \<Rightarrow> string \<Rightarrow> error option \<Rightarrow> ResultError list \<Rightarrow> error" where
  "NewInvalidSBOMError document m inner schemaErrors = InvalidSBOMError m inner schemaErrors"

definition validationError :: "Sbom \<Rightarrow> bool \<Rightarrow> error option \<Rightarrow> validate_event list" where
  "validationError document valid err =
     (case err of
        None \<Rightarrow> []
      | Some (JsonUnmarshalTypeError _) \<Rightarrow> [EvDisplayJSONErrorDetails]
      | Some (JsonSyntaxError _) \<Rightarrow> [EvDisplayJSONErrorDetails]
      | Some (InvalidSBOMError _ _ _) \<Rightarrow>
          (if valid then [EvLogInvalidState] else []) @ [EvLogError]
      | Some _ \<Rightarrow> [EvLogError])
     @ [EvLogValid valid]"

definition validateCustom ::
    "validate_env \<Rightarrow> Sbom \<Rightarrow> Sbom \<times> bool \<times> error option \<times> validate_event list" where
  "validateCustom env document =
     (let (document, err, tr) =
            (if IsCycloneDx (FormatInfo document) then
               (case UnMarshalDocument env (JsonMap document) of
                  (bom, err) \<Rightarrow> (document\<lparr>CdxBom := bom\<rparr>, err, [EvUnMarshalDocument]))
             else (document, None, []))
      in if err \<noteq> None then (document, INVALID, err, tr)
         else
           (case validateCustomCDXDocument env document of
              Some err \<Rightarrow>
                (document, INVALID,
                 Some (if \<not> IsInvalidSBOMError err
                       then NewInvalidSBOMError document (Error_message env err) (Some err) []
                       else err),
                 tr @ [EvValidateCustomCDXDocument])
            | None \<Rightarrow> (document, VALID, None, tr @ [EvValidateCustomCDXDocument])))"

text \<open>
  The retry loop of schema compilation: \<open>i\<close> is the loop counter, the triple holds
  \<open>jsonSbomSchema\<close>, \<open>errLoad\<close> and the events so far.
\<close>

function compile_loop ::
    "validate_env \<Rightarrow> JSONLoader \<Rightarrow> nat
       \<Rightarrow> Schema option \<times> error option \<times> validate_event list
       \<Rightarrow> Schema option \<times> error option \<times> validate_event list" where
  "compile_loop env schemaLoader i (jsonSbomSchema, errLoad, tr) =
     (if i < RETRY then
        (case NewSchema env i schemaLoader of
           Inr compiled \<Rightarrow> (Some compiled, None, tr @ [EvNewSchema i schemaLoader])
         | Inl e \<Rightarrow>
             compile_loop env schemaLoader (Suc i)
               (None, Some e, tr @ [EvNewSchema i schemaLoader, EvWarnRetry]))
      else (jsonSbomSchema, errLoad, tr))"
  by pat_completeness auto
termination
  by (relation "measure (\<lambda>(env, schemaLoader, i, st). RETRY - i)") auto

text \<open>
  \<open>Validate\<close> is one function in the source; the model cuts its body at the
  comments that separate its steps, last step first. The output writer is only handed on
  to \<open>FormatSchemaErrors\<close>, whose call is an event with the violations and the format
  it receives. \<open>tr\<close> holds the events so far.

  Reporting the violations and custom validation (from ``Note: actual schema validation
  errors appear in the result object'' to the end).
\<close>

definition Validate_report ::
    "validate_env \<Rightarrow> PersistentCommandFlags \<Rightarrow> ValidateCommandFlags \<Rightarrow> Sbom \<Rightarrow> bool
       \<Rightarrow> Result \<Rightarrow> validate_event list \<Rightarrow> validate_result \<times> validate_event list" where
  "Validate_report env persistentFlags validateFlags document valid result tr =
     (let schemaErrors = Errors result
      in if length schemaErrors > 0 then
           (let errInvalid =
                  NewInvalidSBOMError document (MSG_SCHEMA_ERRORS env) None schemaErrors;
                format = OutputFormat persistentFlags;
                tr = tr @
                  (if format = FORMAT_JSON env \<or> format = FORMAT_CSV env
                      \<or> format = FORMAT_TEXT env
                   then [EvFormatSchemaErrors schemaErrors format]
                   else [EvWarnInvalidFormat,
                         EvFormatSchemaErrors schemaErrors (FORMAT_TEXT env)])
            in (Return INVALID document schemaErrors (Some errInvalid), tr))
         else if CustomValidation validateFlags then
           (case validateCustom env document of
              (document, valid, err, tr') \<Rightarrow>
                (Return valid document schemaErrors err, tr @ tr'))
         else (Return valid document schemaErrors None, tr))"

text \<open>Evaluating the document against the compiled schema.\<close>

definition Validate_evaluate ::
    "validate_env \<Rightarrow> PersistentCommandFlags \<Rightarrow> ValidateCommandFlags \<Rightarrow> Sbom \<Rightarrow> JSONLoader
       \<Rightarrow> Schema \<Rightarrow> validate_event list \<Rightarrow> validate_result \<times> validate_event list" where
  "Validate_evaluate env persistentFlags validateFlags document documentLoader jsonSbomSchema tr =
     (case Schema_Validate env jsonSbomSchema documentLoader of
        (result, errValidate) \<Rightarrow>
          (let tr = tr @ [EvSchemaValidate jsonSbomSchema documentLoader]
           in case result of
                None \<Rightarrow> (Panic, tr)
              | Some result \<Rightarrow>
                  (let valid = Valid result
                   in if errValidate \<noteq> None then (Return INVALID document [] errValidate, tr)
                      else Validate_report env persistentFlags validateFlags document valid
                             result tr)))"

text \<open>Compiling the schema, with the fixed number of attempts.\<close>

definition Validate_compile ::
    "validate_env \<Rightarrow> PersistentCommandFlags \<Rightarrow> ValidateCommandFlags \<Rightarrow> Sbom \<Rightarrow> JSONLoader
       \<Rightarrow> string \<Rightarrow> JSONLoader \<Rightarrow> validate_event list
       \<Rightarrow> validate_result \<times> validate_event list" where
  "Validate_compile env persistentFlags validateFlags document documentLoader schemaName
       schemaLoader tr =
     (case compile_loop env schemaLoader 0 (None, None, tr) of
        (jsonSbomSchema, errLoad, tr) \<Rightarrow>
          if errLoad \<noteq> None then
            (Return INVALID document []
               (Some (ErrorString (''unable to load schema: `'' @ schemaName @ ''`''))), tr)
          else
            (case jsonSbomSchema of
               None \<Rightarrow> (Panic, tr)
             | Some jsonSbomSchema \<Rightarrow>
                 Validate_evaluate env persistentFlags validateFlags document documentLoader
                   jsonSbomSchema tr))"

text \<open>
  Choosing the schema loader: the forced schema file, or else the embedded schema file of
  the document's schema. The result is \<open>schemaName\<close>, \<open>schemaLoader\<close> (nil is
  \<open>None\<close>), \<open>errRead\<close> and the events.
\<close>

definition Validate_schemaLoader ::
    "validate_env \<Rightarrow> ValidateCommandFlags \<Rightarrow> Sbom
       \<Rightarrow> string \<times> JSONLoader option \<times> error option \<times> validate_event list" where
  "Validate_schemaLoader env validateFlags document =
     (let schemaName = File (SchemaInfo document);
          forcedSchemaFile = ForcedJsonSchemaFile validateFlags
      in if forcedSchemaFile \<noteq> [] then
           (let schemaName = ''file://'' @ forcedSchemaFile
            in (schemaName, Some (NewReferenceLoader schemaName), None, []))
         else
           (case SBOMSchemaFiles_ReadFile env (File (SchemaInfo document)) of
              Inl errRead \<Rightarrow>
                (schemaName, None, Some errRead, [EvReadFile (File (SchemaInfo document))])
            | Inr bSchema \<Rightarrow>
                (schemaName, Some (NewBytesLoader bSchema), None,
                 [EvReadFile (File (SchemaInfo document))])))"

text \<open>The body of \<open>Validate\<close> from its first line.\<close>

definition Validate_body ::
    "validate_env \<Rightarrow> PersistentCommandFlags \<Rightarrow> ValidateCommandFlags
       \<Rightarrow> validate_result \<times> validate_event list" where
  "Validate_body env persistentFlags validateFlags =
     (let valid = False; schemaErrors = []
      in case LoadInputSbomFileAndDetectSchema env of
           (document, Some err) \<Rightarrow> (Return INVALID document schemaErrors (Some err), [])
         | (document, None) \<Rightarrow>
             if CustomValidation validateFlags \<and> \<not> IsCycloneDx (FormatInfo document) then
               (Return valid document schemaErrors
                  (Some (NewUnsupportedFormatError (MSG_FORMAT_UNSUPPORTED_COMMAND env)
                           (GetFilename document) (CanonicalName (FormatInfo document))
                           (CMD_VALIDATE env) FLAG_VALIDATE_CUSTOM)), [])
             else
               (let inputFile = InputFile persistentFlags;
                    documentLoader = NewReferenceLoader (PROTOCOL_PREFIX_FILE @ inputFile)
                in case Validate_schemaLoader env validateFlags document of
                     (schemaName, schemaLoader, errRead, tr) \<Rightarrow>
                       if errRead \<noteq> None then
                         (Return INVALID document schemaErrors errRead, tr)
                       else
                         (case schemaLoader of
                            None \<Rightarrow>
                              (Return INVALID document schemaErrors
                                 (Some (ErrorString
                                          (''unable to read schema: `'' @ schemaName @ ''`''))),
                               tr)
                          | Some schemaLoader \<Rightarrow>
                              Validate_compile env persistentFlags validateFlags document
                                documentLoader schemaName schemaLoader tr)))"

text \<open>
  \<open>Validate\<close> is its body followed by the deferred closure, which reports the error
  it finds in the named results.
\<close>

definition Validate ::
    "validate_env \<Rightarrow> PersistentCommandFlags \<Rightarrow> ValidateCommandFlags
       \<Rightarrow> validate_result \<times> validate_event list" where
  "Validate env persistentFlags validateFlags =
     (case Validate_body env persistentFlags validateFlags of
        (Return valid document schemaErrors (Some err), tr) \<Rightarrow>
          (Return valid document schemaErrors (Some err),
           tr @ validationError document valid (Some err))
      | (r, tr) \<Rightarrow> (r, tr))"

section \<open>Vocabulary of the theorems\<close>

text \<open>
  The order the listing claims: by type, then by name, both compared as byte strings.
\<close>

abbreviation type_name_le :: "Entry \<Rightarrow> Entry \<Rightarrow> bool" where
  "type_name_le a b \<equiv>
     Type (Value a) < Type (Value b)
       \<or> (Type (Value a) = Type (Value b) \<and> Name (Value a) \<le> Name (Value b))"

text \<open>
  Kinds of validation events: a compilation attempt; what reporting and custom validation
  add; what the deferred closure logs.
\<close>

fun is_NewSchema :: "validate_event \<Rightarrow> bool" where
  "is_NewSchema (EvNewSchema _ _) = True"
| "is_NewSchema _ = False"

fun is_report_event :: "validate_event \<Rightarrow> bool" where
  "is_report_event (EvFormatSchemaErrors _ _) = True"
| "is_report_event EvWarnInvalidFormat = True"
| "is_report_event EvUnMarshalDocument = True"
| "is_report_event EvValidateCustomCDXDocument = True"
| "is_report_event _ = False"

fun is_log_event :: "validate_event \<Rightarrow> bool" where
  "is_log_event EvDisplayJSONErrorDetails = True"
| "is_log_event EvLogInvalidState = True"
| "is_log_event EvLogError = True"
| "is_log_event (EvLogValid _) = True"
| "is_log_event _ = False"

definition is_tail_event :: "validate_event \<Rightarrow> bool" where
  "is_tail_event ev = (is_report_event ev \<or> is_log_event ev)"

text \<open>The events of \<open>k\<close> failed compilation attempts on loader \<open>l\<close>.\<close>

definition attempt_events :: "JSONLoader \<Rightarrow> nat \<Rightarrow> validate_event list" where
  "attempt_events l k = concat (map (\<lambda>i. [EvNewSchema i l, EvWarnRetry]) [0..<k])"

section \<open>Example environments\<close>

text \<open>
  Concrete collaborators on which the theorems are run: constants with the values of
  the command line, an input file with the given bytes, a document of the given format
  with schema file \<open>schema.json\<close>, and the given decoder, schema compiler and
  evaluation result.
\<close>

definition example_env ::
    "string \<Rightarrow> (string \<Rightarrow> error + gomap) \<Rightarrow> string
       \<Rightarrow> (nat \<Rightarrow> JSONLoader \<Rightarrow> error + Schema)
       \<Rightarrow> Result option \<times> error option \<Rightarrow> validate_env" where
  "example_env bytes parse format compile evaluation =
     \<lparr>FORMAT_TEXT = ''txt'', FORMAT_JSON = ''json'', FORMAT_CSV = ''csv'',
      FORMAT_MARKDOWN = ''md'', FORMAT_ANY = ''any'', CMD_LICENSE = ''license'',
      CMD_VALIDATE = ''validate'', MSG_FORMAT_UNSUPPORTED_COMMAND = ''unsupported'',
      MSG_SCHEMA_ERRORS = ''schema errors found'', RESOURCE_TYPE_DEFAULT = [],
      RESOURCE_TYPE_COMPONENT = ''component'', RESOURCE_TYPE_SERVICE = ''service'',
      GlobalFlags_InputFile = ''bom.json'',
      os_ReadFile = (\<lambda>f. Inr bytes),
      json_Unmarshal_document = parse,
      FindFormatAndSchema =
        (\<lambda>m. Inr (\<lparr>CanonicalName = format\<rparr>, \<lparr>File = ''schema.json''\<rparr>)),
      SBOMSchemaFiles_ReadFile = (\<lambda>f. Inr ''{}''),
      NewSchema = compile,
      Schema_Validate = (\<lambda>s l. evaluation),
      UnMarshalDocument = (\<lambda>m. (Some m, None)),
      validateCustomCDXDocument = (\<lambda>d. None),
      Error_message = (\<lambda>e. [])\<rparr>"

definition example_flags :: PersistentCommandFlags where
  "example_flags = \<lparr>InputFile = ''bom.json'', OutputFile = [], OutputFormat = ''txt''\<rparr>"

definition example_validate_flags :: "string \<Rightarrow> ValidateCommandFlags" where
  "example_validate_flags forced =
     \<lparr>ForcedJsonSchemaFile = forced, SchemaVariant = [], CustomValidation = False,
      ColorizeErrorOutput = False, MaxNumErrors = 10, ShowErrorValue = True\<rparr>"

definition example_document :: "string \<Rightarrow> string \<Rightarrow> Entry list \<Rightarrow> BOM" where
  "example_document bytes format resources =
     \<lparr>filename = ''bom.json'', rawBytes = bytes, JsonMap = [],
      FormatInfo = \<lparr>CanonicalName = format\<rparr>, SchemaInfo = \<lparr>File = ''schema.json''\<rparr>,
      CdxBom = None, ResourceMap = resources\<rparr>"

text \<open>
  For the listing: no column alignment, comma-joined CSV records, pipe-joined Markdown
  rows, dashes under the titles, and collectors that leave the document as it is.
\<close>

definition example_resource_env :: "string \<Rightarrow> resource_env" where
  "example_resource_env format =
     \<lparr>FORMAT_TEXT = ''txt'', FORMAT_JSON = ''json'', FORMAT_CSV = ''csv'',
      FORMAT_MARKDOWN = ''md'', FORMAT_ANY = ''any'', CMD_LICENSE = ''license'',
      CMD_VALIDATE = ''validate'', MSG_FORMAT_UNSUPPORTED_COMMAND = ''unsupported'',
      MSG_SCHEMA_ERRORS = ''schema errors found'', RESOURCE_TYPE_DEFAULT = [],
      RESOURCE_TYPE_COMPONENT = ''component'', RESOURCE_TYPE_SERVICE = ''service'',
      GlobalFlags_InputFile = ''bom.json'',
      os_ReadFile = (\<lambda>f. Inr ''{}''),
      json_Unmarshal_document = (\<lambda>b. Inr []),
      FindFormatAndSchema =
        (\<lambda>m. Inr (\<lparr>CanonicalName = format\<rparr>, \<lparr>File = ''schema.json''\<rparr>)),
      UnmarshalCycloneDXBOM = (\<lambda>d. (d, None)),
      HashComponentResources = (\<lambda>fs d. (d, None)),
      HashServiceResources = (\<lambda>fs d. (d, None)),
      createTitleTextSeparators = map (\<lambda>t. replicate (length t) CHR ''-''),
      createMarkdownRow = (\<lambda>cells. ''|'' @ strings_Join cells ''|'' @ ''|''),
      createMarkdownColumnAlignment = map (\<lambda>t. '':--''),
      csv_record = (\<lambda>cells. strings_Join cells '','' @ newline),
      tabwriter_align = (\<lambda>s. s)\<rparr>"

definition console :: writer where
  "console = \<lparr>accepts = (\<lambda>n. True), calls = 0, written = []\<rparr>"

definition example_entries :: "Entry list" where
  "example_entries =
     [\<lparr>Key = ''k1'', Value = \<lparr>Type = ''service'', Name = ''b'', Version = ''2'', BOMRef = ''ref-b''\<rparr>\<rparr>,
      \<lparr>Key = ''k2'', Value = \<lparr>Type = ''component'', Name = ''a'', Version = ''1'', BOMRef = ''ref-a''\<rparr>\<rparr>]"

section \<open>The custom marshalers\<close>

lemma str_le_simps:
  "(''content'' :: string) \<le> ''contentType''" "\<not> (''contentType'' :: string) \<le> ''content''"
  "(''content'' :: string) \<le> ''encoding''" "\<not> (''encoding'' :: string) \<le> ''content''"
  "(''contentType'' :: string) \<le> ''encoding''" "\<not> (''encoding'' :: string) \<le> ''contentType''"
  by (simp_all add: less_eq_list_code)

text \<open>The keys the marshalers write are ASCII, which the coercion leaves alone.\<close>

lemma json_string_keys:
  "json_string ''content'' = ''content''"
  "json_string ''contentType'' = ''contentType''"
  "json_string ''encoding'' = ''encoding''"
  "json_string ''expression'' = ''expression''"
  by (simp_all add: json_string_def DecodeRune_size_def)

text \<open>The coercion never empties a string and never fills an empty one.\<close>

lemma coerce_Nil_iff: "coerce k s = [] \<longleftrightarrow> s = []"
proof (cases s)
  case Nil
  then show ?thesis by simp
next
  case (Cons c cs)
  then show ?thesis
    by (cases k; cases "DecodeRune_size (c # cs)") (simp_all add: RuneError_def)
qed

lemma json_string_Nil_iff: "json_string s = [] \<longleftrightarrow> s = []"
  by (simp add: json_string_def coerce_Nil_iff)

lemma json_string_Nil: "json_string [] = []"
  by (simp add: json_string_def)

text \<open>
  The members an attachment is encoded to, in the order of the encoded text.
\<close>

lemma attachment_encoding:
  "CDXAttachment_MarshalJSON v = Inr (JObject (
      (if Content v \<noteq> [] then [(''content'', JString (json_string (Content v)))] else []) @
      (if ContentType v \<noteq> [] then [(''contentType'', JString (json_string (ContentType v)))]
       else []) @
      (if Encoding v \<noteq> [] then [(''encoding'', JString (json_string (Encoding v)))] else [])))"
  by (simp add: CDXAttachment_MarshalJSON_def json_Marshal_def Let_def str_le_simps
        json_string_keys)

text \<open>
  Claim C2, as stated, fails on a value that is not valid UTF-8: the expression that is
  the single byte \<open>0xFF\<close> is encoded as the replacement character, not as itself.
\<close>

theorem LicenseChoice_expression_only_counterexample:
  "Expression \<lparr>License = CDXLicense_zero, Expression = [CHR 0xFF]\<rparr> \<noteq> []
   \<and> License \<lparr>License = CDXLicense_zero, Expression = [CHR 0xFF]\<rparr> = CDXLicense_zero
   \<and> CDXLicenseChoice_MarshalJSON \<lparr>License = CDXLicense_zero, Expression = [CHR 0xFF]\<rparr>
       = Inr (JObject [(''expression'', JString [CHR 0xEF, CHR 0xBF, CHR 0xBD])])
   \<and> CDXLicenseChoice_MarshalJSON \<lparr>License = CDXLicense_zero, Expression = [CHR 0xFF]\<rparr>
       \<noteq> Inr (JObject [(''expression'', JString [CHR 0xFF])])"
  by (simp add: CDXLicenseChoice_MarshalJSON_def json_Marshal_def Let_def json_string_keys
        json_string_def DecodeRune_size_def RuneError_def)

text \<open>
  Claim C2, amended. A license choice with a non-empty expression and the zero license is
  encoded, without error, to the object whose only member is \<open>expression\<close>, holding
  the expression coerced to valid UTF-8, a non-empty string; there is no \<open>license\<close>
  member. When the expression is valid UTF-8 the member holds the expression itself.
\<close>

theorem LicenseChoice_expression_only:
  assumes "Expression v \<noteq> []" and "License v = CDXLicense_zero"
  shows "CDXLicenseChoice_MarshalJSON v
           = Inr (JObject [(''expression'', JString (json_string (Expression v)))])
         \<and> json_string (Expression v) \<noteq> []
         \<and> (utf8_ValidString (Expression v) \<longrightarrow>
              CDXLicenseChoice_MarshalJSON v
                = Inr (JObject [(''expression'', JString (Expression v))]))"
  using assms
  by (simp add: CDXLicenseChoice_MarshalJSON_def json_Marshal_def Let_def json_string_keys
        json_string_Nil_iff utf8_ValidString_def)

theorem LicenseChoice_expression_only_witness:
  "Expression \<lparr>License = CDXLicense_zero, Expression = ''MIT OR Apache-2.0''\<rparr> \<noteq> []
   \<and> License \<lparr>License = CDXLicense_zero, Expression = ''MIT OR Apache-2.0''\<rparr> = CDXLicense_zero
   \<and> utf8_ValidString ''MIT OR Apache-2.0''
   \<and> CDXLicenseChoice_MarshalJSON \<lparr>License = CDXLicense_zero, Expression = ''MIT OR Apache-2.0''\<rparr>
       = Inr (JObject [(''expression'', JString ''MIT OR Apache-2.0'')])"
proof -
  have valid: "utf8_ValidString ''MIT OR Apache-2.0''"
    by (simp add: utf8_ValidString_def json_string_def DecodeRune_size_def)
  from LicenseChoice_expression_only
         [of "\<lparr>License = CDXLicense_zero, Expression = ''MIT OR Apache-2.0''\<rparr>"] valid
  show ?thesis by (simp add: utf8_ValidString_def)
qed

text \<open>
  Claim C7, as stated, fails on a value that is not valid UTF-8: the content that is the
  single byte \<open>0xFF\<close> comes back from encoding and parsing as the replacement
  character.
\<close>

theorem Attachment_omits_empty_and_round_trips_counterexample:
  "CDXAttachment_MarshalJSON \<lparr>ContentType = [], Encoding = [], Content = [CHR 0xFF]\<rparr>
     = Inr (JObject [(''content'', JString [CHR 0xEF, CHR 0xBF, CHR 0xBD])])
   \<and> CDXAttachment_UnmarshalJSON (JObject [(''content'', JString [CHR 0xEF, CHR 0xBF, CHR 0xBD])])
     = Inr \<lparr>ContentType = [], Encoding = [], Content = [CHR 0xEF, CHR 0xBF, CHR 0xBD]\<rparr>
   \<and> \<lparr>ContentType = [], Encoding = [], Content = [CHR 0xEF, CHR 0xBF, CHR 0xBD]\<rparr>
     \<noteq> \<lparr>ContentType = [], Encoding = [], Content = [CHR 0xFF]\<rparr>"
  by (simp add: attachment_encoding CDXAttachment_UnmarshalJSON_def attachment_member_def
        CDXAttachment_zero_def json_string_def DecodeRune_size_def RuneError_def)

text \<open>
  Claim C7, amended. Every attachment is encoded, without error, to an object with
  distinct keys among \<open>contentType\<close>, \<open>encoding\<close> and \<open>content\<close>, in which each of
  the three is present exactly when its field is not the empty string and then holds the
  field's value coerced to valid UTF-8. Parsing that object gives the attachment with
  each field coerced to valid UTF-8, so with the same populated fields; when the three
  fields are valid UTF-8 it gives the attachment back.
\<close>

theorem Attachment_omits_empty_and_round_trips:
  fixes v :: CDXAttachment
  shows "\<exists>ms. CDXAttachment_MarshalJSON v = Inr (JObject ms)
            \<and> distinct (map fst ms)
            \<and> fst ` set ms \<subseteq> {''contentType'', ''encoding'', ''content''}
            \<and> map_of ms ''contentType''
                = (if ContentType v = [] then None
                   else Some (JString (json_string (ContentType v))))
            \<and> map_of ms ''encoding''
                = (if Encoding v = [] then None else Some (JString (json_string (Encoding v))))
            \<and> map_of ms ''content''
                = (if Content v = [] then None else Some (JString (json_string (Content v))))
            \<and> CDXAttachment_UnmarshalJSON (JObject ms)
                = Inr \<lparr>ContentType = json_string (ContentType v),
                       Encoding = json_string (Encoding v),
                       Content = json_string (Content v)\<rparr>
            \<and> (json_string (ContentType v) = []) = (ContentType v = [])
            \<and> (json_string (Encoding v) = []) = (Encoding v = [])
            \<and> (json_string (Content v) = []) = (Content v = [])
            \<and> (utf8_ValidString (ContentType v) \<and> utf8_ValidString (Encoding v)
                  \<and> utf8_ValidString (Content v)
                \<longrightarrow> CDXAttachment_UnmarshalJSON (JObject ms) = Inr v)"
  unfolding attachment_encoding
  by (cases v)
     (simp add: CDXAttachment_UnmarshalJSON_def attachment_member_def CDXAttachment_zero_def
        json_string_Nil_iff json_string_Nil utf8_ValidString_def)

theorem Attachment_omits_empty_and_round_trips_witness:
  "utf8_ValidString ''text/plain'' \<and> utf8_ValidString [] \<and> utf8_ValidString ''MIT''
   \<and> CDXAttachment_MarshalJSON \<lparr>ContentType = ''text/plain'', Encoding = [], Content = ''MIT''\<rparr>
     = Inr (JObject [(''content'', JString ''MIT''), (''contentType'', JString ''text/plain'')])
   \<and> CDXAttachment_UnmarshalJSON
        (JObject [(''content'', JString ''MIT''), (''contentType'', JString ''text/plain'')])
     = Inr \<lparr>ContentType = ''text/plain'', Encoding = [], Content = ''MIT''\<rparr>"
proof -
  let ?v = "\<lparr>ContentType = ''text/plain'', Encoding = [], Content = ''MIT''\<rparr>"
  have valid: "utf8_ValidString ''text/plain''" "utf8_ValidString []" "utf8_ValidString ''MIT''"
    by (simp_all add: utf8_ValidString_def json_string_def DecodeRune_size_def)
  then have enc: "CDXAttachment_MarshalJSON ?v
     = Inr (JObject [(''content'', JString ''MIT''), (''contentType'', JString ''text/plain'')])"
    by (simp add: attachment_encoding utf8_ValidString_def)
  from Attachment_omits_empty_and_round_trips [of ?v] valid obtain ms
    where "CDXAttachment_MarshalJSON ?v = Inr (JObject ms)"
      and "CDXAttachment_UnmarshalJSON (JObject ms) = Inr ?v" by auto
  with enc valid show ?thesis by simp
qed

section \<open>Resource listing\<close>

subsection \<open>The sort\<close>

lemma resource_less_le: "resource_less a b \<Longrightarrow> type_name_le a b"
  by (auto simp: resource_less_def Let_def split: if_splits)

lemma not_resource_less_le: "\<not> resource_less a b \<Longrightarrow> type_name_le b a"
  by (auto simp: resource_less_def Let_def split: if_splits)

lemma type_name_le_trans: "type_name_le a b \<Longrightarrow> type_name_le b c \<Longrightarrow> type_name_le a c"
  by auto

lemma set_insert_left: "set (insert_left lt x ys) = insert x (set ys)"
  by (induction ys) auto

lemma mset_insert_left: "mset (insert_left lt x ys) = add_mset x (mset ys)"
  by (induction ys) auto

text \<open>
  The reversed prefix is in descending order, and an insertion keeps it so: the new
  element passes every element it is less than and stops left of the first it is not.
\<close>

lemma sorted_insert_left:
  "sorted_wrt (\<lambda>a b. type_name_le b a) ys \<Longrightarrow>
     sorted_wrt (\<lambda>a b. type_name_le b a) (insert_left resource_less x ys)"
proof (induction ys)
  case Nil
  then show ?case by simp
next
  case (Cons y ys)
  show ?case
  proof (cases "resource_less x y")
    case True
    from Cons.prems have "\<forall>z \<in> set ys. type_name_le z y" by simp
    with True resource_less_le [OF True] Cons show ?thesis
      by (simp add: set_insert_left)
  next
    case False
    have yx: "type_name_le y x" by (rule not_resource_less_le [OF False])
    have "\<forall>z \<in> set ys. type_name_le z x"
    proof
      fix z assume "z \<in> set ys"
      with Cons.prems have "type_name_le z y" by simp
      then show "type_name_le z x" using yx by (rule type_name_le_trans)
    qed
    with False yx Cons.prems show ?thesis by simp
  qed
qed

lemma foldl_insert_left:
  "sorted_wrt (\<lambda>a b. type_name_le b a) acc \<Longrightarrow>
     sorted_wrt (\<lambda>a b. type_name_le b a) (foldl (\<lambda>acc x. insert_left resource_less x acc) acc xs)
     \<and> mset (foldl (\<lambda>acc x. insert_left resource_less x acc) acc xs) = mset acc + mset xs"
  by (induction xs arbitrary: acc) (simp_all add: sorted_insert_left mset_insert_left)

lemma sort_Slice_sorted: "sorted_wrt type_name_le (sort_Slice resource_less xs)"
  using foldl_insert_left [of "[]" xs] by (simp add: sort_Slice_def sorted_wrt_rev)

lemma sort_Slice_mset: "mset (sort_Slice resource_less xs) = mset xs"
  using foldl_insert_left [of "[]" xs] by (simp add: sort_Slice_def)

subsection \<open>Writing to a device that takes every write\<close>

lemma Write_accepting:
  "\<forall>n. accepts w n \<Longrightarrow>
     Write w p = (w\<lparr>calls := Suc (calls w), written := written w @ p\<rparr>, None)"
  by (simp add: Write_def)

lemma Fprintf_accepting:
  "\<forall>n. accepts w n \<Longrightarrow> Fprintf w p = w\<lparr>calls := Suc (calls w), written := written w @ p\<rparr>"
  by (simp add: Fprintf_def Write_accepting)

lemma text_rows_buf:
  "tw_buf (text_rows w es)
     = tw_buf w @ concat (map (\<lambda>e. Type (Value e) @ tab @ Name (Value e) @ tab
                                @ Version (Value e) @ tab @ BOMRef (Value e) @ newline) es)
   \<and> tw_output (text_rows w es) = tw_output w"
  by (induction es arbitrary: w) (simp_all add: tw_Fprintf_def Let_def)

lemma csv_rows_accepting:
  "\<forall>n. accepts w n \<Longrightarrow>
     written (fst (csv_rows env w None es))
         = written w @ concat (map (\<lambda>e. csv_record env (resource_line (Value e))) es)
     \<and> snd (csv_rows env w None es) = None"
  by (induction es arbitrary: w) (simp_all add: csv_Write_def Write_accepting)

lemma markdown_rows_accepting:
  "\<forall>n. accepts w n \<Longrightarrow>
     written (markdown_rows env w es)
       = written w @ concat (map (\<lambda>e. createMarkdownRow env (resource_line (Value e)) @ newline) es)"
  by (induction es arbitrary: w) (simp_all add: Fprintf_accepting Let_def)

lemmas example_listing_defs =
  example_resource_env_def console_def example_entries_def example_document_def
  RESOURCE_LIST_TITLES_def RESOURCE_FILTER_KEY_TYPE_def RESOURCE_FILTER_KEY_NAME_def
  RESOURCE_FILTER_KEY_VERSION_def RESOURCE_FILTER_KEY_BOMREF_def
  MSG_OUTPUT_NO_RESOURCES_FOUND_def newline_def tab_def

subsection \<open>The empty collection\<close>

text \<open>
  Claim C1. For a document whose resource collection has no entries: the CSV formatter
  returns an error on every device, the Markdown formatter returns the error made from
  the notice on every device, and on a device that takes every write each formatter puts
  out its titles followed by the notice in its own format (a line of text handed to the
  tabwriter, a CSV record of one field, a line of Markdown), the CSV error then being
  the one made from the notice as well. The text formatter has no error result at all:
  it returns the device only.
\<close>

theorem DisplayResourceList_empty:
  assumes "ResourceMap bom = []"
  shows "snd (DisplayResourceListCSV env bom w) \<noteq> None
         \<and> snd (DisplayResourceListMarkdown env bom w)
             = Some (ErrorString MSG_OUTPUT_NO_RESOURCES_FOUND)
         \<and> ((\<forall>n. accepts w n) \<longrightarrow>
              written (DisplayResourceListText env bom w)
                = written w @ tabwriter_align env
                    (strings_Join RESOURCE_LIST_TITLES tab @ newline
                     @ strings_Join (createTitleTextSeparators env RESOURCE_LIST_TITLES) tab
                     @ newline
                     @ MSG_OUTPUT_NO_RESOURCES_FOUND @ newline)
              \<and> written (fst (DisplayResourceListCSV env bom w))
                = written w @ csv_record env RESOURCE_LIST_TITLES
                    @ csv_record env [MSG_OUTPUT_NO_RESOURCES_FOUND]
              \<and> snd (DisplayResourceListCSV env bom w)
                = Some (ErrorString MSG_OUTPUT_NO_RESOURCES_FOUND)
              \<and> written (fst (DisplayResourceListMarkdown env bom w))
                = written w @ createMarkdownRow env RESOURCE_LIST_TITLES @ newline
                    @ createMarkdownRow env
                        (createMarkdownColumnAlignment env RESOURCE_LIST_TITLES) @ newline
                    @ MSG_OUTPUT_NO_RESOURCES_FOUND @ newline)"
proof (intro conjI impI)
  show "snd (DisplayResourceListCSV env bom w) \<noteq> None"
    using assms
    by (simp add: DisplayResourceListCSV_def Entries_def Let_def split: prod.splits option.splits)
  show "snd (DisplayResourceListMarkdown env bom w)
          = Some (ErrorString MSG_OUTPUT_NO_RESOURCES_FOUND)"
    using assms by (simp add: DisplayResourceListMarkdown_def Entries_def Let_def)
next
  assume acc: "\<forall>n. accepts w n"
  show "written (DisplayResourceListText env bom w)
                = written w @ tabwriter_align env
                    (strings_Join RESOURCE_LIST_TITLES tab @ newline
                     @ strings_Join (createTitleTextSeparators env RESOURCE_LIST_TITLES) tab
                     @ newline
                     @ MSG_OUTPUT_NO_RESOURCES_FOUND @ newline)"
    using assms acc
    by (simp add: DisplayResourceListText_def Entries_def Let_def tw_Flush_def tw_Fprintf_def
          tw_Init_def Fprintf_accepting)
  show "written (fst (DisplayResourceListCSV env bom w))
                = written w @ csv_record env RESOURCE_LIST_TITLES
                    @ csv_record env [MSG_OUTPUT_NO_RESOURCES_FOUND]"
    using assms acc
    by (simp add: DisplayResourceListCSV_def Entries_def Let_def csv_Write_def Write_accepting)
  show "snd (DisplayResourceListCSV env bom w)
          = Some (ErrorString MSG_OUTPUT_NO_RESOURCES_FOUND)"
    using assms acc
    by (simp add: DisplayResourceListCSV_def Entries_def Let_def csv_Write_def Write_accepting)
  show "written (fst (DisplayResourceListMarkdown env bom w))
                = written w @ createMarkdownRow env RESOURCE_LIST_TITLES @ newline
                    @ createMarkdownRow env
                        (createMarkdownColumnAlignment env RESOURCE_LIST_TITLES) @ newline
                    @ MSG_OUTPUT_NO_RESOURCES_FOUND @ newline"
    using assms acc
    by (simp add: DisplayResourceListMarkdown_def Entries_def Let_def Fprintf_accepting)
qed

theorem DisplayResourceList_empty_witness:
  "ResourceMap (example_document ''{}'' ''CycloneDX'' []) = []
   \<and> (\<forall>n. accepts console n)
   \<and> written (DisplayResourceListText (example_resource_env ''CycloneDX'')
                (example_document ''{}'' ''CycloneDX'' []) console)
       = ''type'' @ tab @ ''name'' @ tab @ ''version'' @ tab @ ''bom-ref'' @ newline
         @ ''----'' @ tab @ ''----'' @ tab @ ''-------'' @ tab @ ''-------'' @ newline
         @ ''[WARN] no matching resources found for query'' @ newline
   \<and> DisplayResourceListCSV (example_resource_env ''CycloneDX'')
        (example_document ''{}'' ''CycloneDX'' []) console
       = (console\<lparr>calls := 2,
            written := ''type,name,version,bom-ref'' @ newline
              @ ''[WARN] no matching resources found for query'' @ newline\<rparr>,
          Some (ErrorString ''[WARN] no matching resources found for query''))
   \<and> DisplayResourceListMarkdown (example_resource_env ''CycloneDX'')
        (example_document ''{}'' ''CycloneDX'' []) console
       = (console\<lparr>calls := 3,
            written := ''|type|name|version|bom-ref|'' @ newline
              @ ''|:--|:--|:--|:--|'' @ newline
              @ ''[WARN] no matching resources found for query'' @ newline\<rparr>,
          Some (ErrorString ''[WARN] no matching resources found for query''))"
proof -
  have e: "ResourceMap (example_document ''{}'' ''CycloneDX'' []) = []"
    by (simp add: example_document_def)
  have a: "\<forall>n. accepts console n"
    by (simp add: console_def)
  have calls: "calls (fst (DisplayResourceListCSV (example_resource_env ''CycloneDX'')
                      (example_document ''{}'' ''CycloneDX'' []) console)) = 2
         \<and> accepts (fst (DisplayResourceListCSV (example_resource_env ''CycloneDX'')
                      (example_document ''{}'' ''CycloneDX'' []) console)) = (\<lambda>n. True)
         \<and> calls (fst (DisplayResourceListMarkdown (example_resource_env ''CycloneDX'')
                      (example_document ''{}'' ''CycloneDX'' []) console)) = 3
         \<and> accepts (fst (DisplayResourceListMarkdown (example_resource_env ''CycloneDX'')
                      (example_document ''{}'' ''CycloneDX'' []) console)) = (\<lambda>n. True)"
    by (simp add: DisplayResourceListCSV_def DisplayResourceListMarkdown_def Entries_def Let_def
          csv_Write_def Write_def Fprintf_def example_listing_defs numeral_2_eq_2 numeral_3_eq_3)
  from DisplayResourceList_empty [OF e, of "example_resource_env ''CycloneDX''" console] a calls e
  show ?thesis
    by (auto simp: example_listing_defs prod_eq_iff intro!: writer.equality)
qed

subsection \<open>The order of the rows\<close>

text \<open>
  Claim C6. For a document with at least one resource, whatever the order of the entries
  in its collection, the three formatters write their titles followed by one row per
  entry of one and the same list of rows: a rearrangement of the collection that ascends
  by type and, for equal types, by name, both compared bytewise (so case-sensitively).
  The output is the one on a device that takes every write.
\<close>

theorem DisplayResourceList_sorted:
  assumes "ResourceMap bom \<noteq> []" and "\<forall>n. accepts w n"
  shows "\<exists>rows. mset rows = mset (ResourceMap bom)
           \<and> sorted_wrt (\<lambda>a b. Type (Value a) < Type (Value b)
                 \<or> (Type (Value a) = Type (Value b) \<and> Name (Value a) \<le> Name (Value b))) rows
           \<and> written (DisplayResourceListText env bom w)
               = written w @ tabwriter_align env
                   (strings_Join RESOURCE_LIST_TITLES tab @ newline
                    @ strings_Join (createTitleTextSeparators env RESOURCE_LIST_TITLES) tab
                    @ newline
                    @ concat (map (\<lambda>e. Type (Value e) @ tab @ Name (Value e) @ tab
                                @ Version (Value e) @ tab @ BOMRef (Value e) @ newline) rows))
           \<and> written (fst (DisplayResourceListCSV env bom w))
               = written w @ csv_record env RESOURCE_LIST_TITLES
                   @ concat (map (\<lambda>e. csv_record env
                       [Type (Value e), Name (Value e), Version (Value e), BOMRef (Value e)]) rows)
           \<and> written (fst (DisplayResourceListMarkdown env bom w))
               = written w @ createMarkdownRow env RESOURCE_LIST_TITLES @ newline
                   @ createMarkdownRow env
                       (createMarkdownColumnAlignment env RESOURCE_LIST_TITLES) @ newline
                   @ concat (map (\<lambda>e. createMarkdownRow env
                       [Type (Value e), Name (Value e), Version (Value e), BOMRef (Value e)]
                         @ newline) rows)"
proof (intro exI[of _ "sort_Slice resource_less (ResourceMap bom)"] conjI)
  show "mset (sort_Slice resource_less (ResourceMap bom)) = mset (ResourceMap bom)"
    by (rule sort_Slice_mset)
  show "sorted_wrt type_name_le (sort_Slice resource_less (ResourceMap bom))"
    by (rule sort_Slice_sorted)
  show "written (DisplayResourceListText env bom w)
               = written w @ tabwriter_align env
                   (strings_Join RESOURCE_LIST_TITLES tab @ newline
                    @ strings_Join (createTitleTextSeparators env RESOURCE_LIST_TITLES) tab
                    @ newline
                    @ concat (map (\<lambda>e. Type (Value e) @ tab @ Name (Value e) @ tab
                                @ Version (Value e) @ tab @ BOMRef (Value e) @ newline)
                        (sort_Slice resource_less (ResourceMap bom))))"
    using assms
    by (simp add: DisplayResourceListText_def Entries_def Let_def tw_Flush_def tw_Fprintf_def
          tw_Init_def Fprintf_accepting text_rows_buf)
  have w1: "\<forall>n. accepts (w\<lparr>calls := Suc (calls w),
                 written := written w @ csv_record env RESOURCE_LIST_TITLES\<rparr>) n"
    using assms(2) by simp
  show "written (fst (DisplayResourceListCSV env bom w))
               = written w @ csv_record env RESOURCE_LIST_TITLES
                   @ concat (map (\<lambda>e. csv_record env
                       [Type (Value e), Name (Value e), Version (Value e), BOMRef (Value e)])
                        (sort_Slice resource_less (ResourceMap bom)))"
    using assms csv_rows_accepting [OF w1, of env "sort_Slice resource_less (ResourceMap bom)"]
    by (simp add: DisplayResourceListCSV_def Entries_def Let_def csv_Write_def Write_accepting
          resource_line_def)
  have w2: "\<forall>n. accepts
              (Fprintf (Fprintf w (createMarkdownRow env RESOURCE_LIST_TITLES @ newline))
                 (createMarkdownRow env (createMarkdownColumnAlignment env RESOURCE_LIST_TITLES)
                    @ newline)) n"
    using assms(2) by (simp add: Fprintf_accepting)
  show "written (fst (DisplayResourceListMarkdown env bom w))
               = written w @ createMarkdownRow env RESOURCE_LIST_TITLES @ newline
                   @ createMarkdownRow env
                       (createMarkdownColumnAlignment env RESOURCE_LIST_TITLES) @ newline
                   @ concat (map (\<lambda>e. createMarkdownRow env
                       [Type (Value e), Name (Value e), Version (Value e), BOMRef (Value e)]
                         @ newline)
                        (sort_Slice resource_less (ResourceMap bom)))"
    using assms markdown_rows_accepting [OF w2, of env "sort_Slice resource_less (ResourceMap bom)"]
    by (simp add: DisplayResourceListMarkdown_def Entries_def Let_def Fprintf_accepting
          resource_line_def)
qed

text \<open>
  The example of the claim: a service named \<open>b\<close> inserted before a component named
  \<open>a\<close> is listed after it.
\<close>

theorem DisplayResourceList_sorted_witness:
  "ResourceMap (example_document ''{}'' ''CycloneDX'' example_entries) \<noteq> []
   \<and> (\<forall>n. accepts console n)
   \<and> (\<exists>rows. mset rows = mset example_entries
         \<and> sorted_wrt type_name_le rows
         \<and> written (fst (DisplayResourceListCSV (example_resource_env ''CycloneDX'')
                      (example_document ''{}'' ''CycloneDX'' example_entries) console))
             = ''type,name,version,bom-ref'' @ newline
               @ concat (map (\<lambda>e. strings_Join
                    [Type (Value e), Name (Value e), Version (Value e), BOMRef (Value e)] '',''
                    @ newline) rows))
   \<and> written (fst (DisplayResourceListCSV (example_resource_env ''CycloneDX'')
                (example_document ''{}'' ''CycloneDX'' example_entries) console))
       = ''type,name,version,bom-ref'' @ newline
         @ ''component,a,1,ref-a'' @ newline
         @ ''service,b,2,ref-b'' @ newline
   \<and> written (DisplayResourceListText (example_resource_env ''CycloneDX'')
                (example_document ''{}'' ''CycloneDX'' example_entries) console)
       = ''type'' @ tab @ ''name'' @ tab @ ''version'' @ tab @ ''bom-ref'' @ newline
         @ ''----'' @ tab @ ''----'' @ tab @ ''-------'' @ tab @ ''-------'' @ newline
         @ ''component'' @ tab @ ''a'' @ tab @ ''1'' @ tab @ ''ref-a'' @ newline
         @ ''service'' @ tab @ ''b'' @ tab @ ''2'' @ tab @ ''ref-b'' @ newline
   \<and> written (fst (DisplayResourceListMarkdown (example_resource_env ''CycloneDX'')
                (example_document ''{}'' ''CycloneDX'' example_entries) console))
       = ''|type|name|version|bom-ref|'' @ newline
         @ ''|:--|:--|:--|:--|'' @ newline
         @ ''|component|a|1|ref-a|'' @ newline
         @ ''|service|b|2|ref-b|'' @ newline"
proof -
  let ?bom = "example_document ''{}'' ''CycloneDX'' example_entries"
  let ?env = "example_resource_env ''CycloneDX''"
  have ne: "ResourceMap ?bom \<noteq> []"
    by (simp add: example_document_def example_entries_def)
  have a: "\<forall>n. accepts console n"
    by (simp add: console_def)
  have rm: "ResourceMap ?bom = example_entries"
    by (simp add: example_document_def)
  have general: "\<exists>rows. mset rows = mset example_entries
         \<and> sorted_wrt type_name_le rows
         \<and> written (fst (DisplayResourceListCSV ?env ?bom console))
             = ''type,name,version,bom-ref'' @ newline
               @ concat (map (\<lambda>e. strings_Join
                    [Type (Value e), Name (Value e), Version (Value e), BOMRef (Value e)] '',''
                    @ newline) rows)"
  proof -
    from DisplayResourceList_sorted [OF ne a, of ?env] obtain rows where
      "mset rows = mset (ResourceMap ?bom)" "sorted_wrt type_name_le rows"
      "written (fst (DisplayResourceListCSV ?env ?bom console))
               = written console @ csv_record ?env RESOURCE_LIST_TITLES
                   @ concat (map (\<lambda>e. csv_record ?env
                       [Type (Value e), Name (Value e), Version (Value e), BOMRef (Value e)]) rows)"
      by blast
    then show ?thesis
      by (intro exI[of _ rows]) (simp add: rm example_resource_env_def console_def
            RESOURCE_LIST_TITLES_def RESOURCE_FILTER_KEY_TYPE_def RESOURCE_FILTER_KEY_NAME_def
            RESOURCE_FILTER_KEY_VERSION_def RESOURCE_FILTER_KEY_BOMREF_def)
  qed
  have order: "sort_Slice resource_less example_entries
      = [\<lparr>Key = ''k2'', Value = \<lparr>Type = ''component'', Name = ''a'', Version = ''1'', BOMRef = ''ref-a''\<rparr>\<rparr>,
         \<lparr>Key = ''k1'', Value = \<lparr>Type = ''service'', Name = ''b'', Version = ''2'', BOMRef = ''ref-b''\<rparr>\<rparr>]"
    by (simp add: sort_Slice_def example_entries_def resource_less_def less_list_code)
  have nonempty: "example_entries \<noteq> []"
    by (simp add: example_entries_def)
  have csv_out: "written (fst (DisplayResourceListCSV ?env ?bom console))
       = ''type,name,version,bom-ref'' @ newline
         @ ''component,a,1,ref-a'' @ newline
         @ ''service,b,2,ref-b'' @ newline"
    by (simp add: DisplayResourceListCSV_def Entries_def Let_def csv_Write_def Write_def rm order
          resource_line_def example_resource_env_def console_def newline_def
          RESOURCE_LIST_TITLES_def RESOURCE_FILTER_KEY_TYPE_def RESOURCE_FILTER_KEY_NAME_def
          RESOURCE_FILTER_KEY_VERSION_def RESOURCE_FILTER_KEY_BOMREF_def nonempty)
  have text_out: "written (DisplayResourceListText ?env ?bom console)
       = ''type'' @ tab @ ''name'' @ tab @ ''version'' @ tab @ ''bom-ref'' @ newline
         @ ''----'' @ tab @ ''----'' @ tab @ ''-------'' @ tab @ ''-------'' @ newline
         @ ''component'' @ tab @ ''a'' @ tab @ ''1'' @ tab @ ''ref-a'' @ newline
         @ ''service'' @ tab @ ''b'' @ tab @ ''2'' @ tab @ ''ref-b'' @ newline"
    by (simp add: DisplayResourceListText_def Entries_def Let_def tw_Flush_def tw_Fprintf_def
          tw_Init_def Fprintf_def Write_def rm order example_resource_env_def console_def
          newline_def tab_def nonempty
          RESOURCE_LIST_TITLES_def RESOURCE_FILTER_KEY_TYPE_def RESOURCE_FILTER_KEY_NAME_def
          RESOURCE_FILTER_KEY_VERSION_def RESOURCE_FILTER_KEY_BOMREF_def)
  have md_out: "written (fst (DisplayResourceListMarkdown ?env ?bom console))
       = ''|type|name|version|bom-ref|'' @ newline
         @ ''|:--|:--|:--|:--|'' @ newline
         @ ''|component|a|1|ref-a|'' @ newline
         @ ''|service|b|2|ref-b|'' @ newline"
    by (simp add: DisplayResourceListMarkdown_def Entries_def Let_def Fprintf_def Write_def rm
          order resource_line_def example_resource_env_def console_def newline_def
          RESOURCE_LIST_TITLES_def RESOURCE_FILTER_KEY_TYPE_def RESOURCE_FILTER_KEY_NAME_def
          RESOURCE_FILTER_KEY_VERSION_def RESOURCE_FILTER_KEY_BOMREF_def nonempty)
  from ne a general csv_out text_out md_out show ?thesis by blast
qed

subsection \<open>Documents of another format\<close>

text \<open>
  Claim C9. For a document whose format is not CycloneDX, \<open>loadDocumentResources\<close>
  returns an unsupported-format error, the document as it was (its resource collection
  included) and no event: neither the full unmarshal nor a collector has run. When the
  loader has produced such a document, \<open>ListResources\<close> returns that error, with nothing
  written.
\<close>

theorem loadDocumentResources_unsupported_format:
  assumes "\<not> IsCycloneDx (FormatInfo document)"
  shows "(\<exists>e. loadDocumentResources env document resourceType whereFilters
                 = (document, Some e, [])
              \<and> IsUnsupportedFormatError e)
         \<and> (LoadInputBOMFileAndDetectSchema env = (document, None) \<longrightarrow>
              (\<exists>e. ListResources env output persistentFlags
                        \<lparr>ResourceType = resourceType\<rparr> whereFilters
                      = (Some e, output, document, [])
                    \<and> IsUnsupportedFormatError e))"
  using assms
  by (simp add: loadDocumentResources_def ListResources_def NewUnsupportedFormatForCommandError_def)

theorem loadDocumentResources_unsupported_format_witness:
  "\<not> IsCycloneDx (FormatInfo (example_document ''{}'' ''SPDX'' []))
   \<and> LoadInputBOMFileAndDetectSchema (example_resource_env ''SPDX'')
       = (example_document ''{}'' ''SPDX'' [], None)
   \<and> loadDocumentResources (example_resource_env ''SPDX'') (example_document ''{}'' ''SPDX'' [])
        [] []
       = (example_document ''{}'' ''SPDX'' [],
          Some (UnsupportedFormatError [] ''bom.json'' ''SPDX'' ''license'' ''any''), [])
   \<and> ListResources (example_resource_env ''SPDX'') console example_flags
        \<lparr>ResourceType = []\<rparr> []
       = (Some (UnsupportedFormatError [] ''bom.json'' ''SPDX'' ''license'' ''any''),
          console, example_document ''{}'' ''SPDX'' [], [])"
proof -
  let ?d = "example_document ''{}'' ''SPDX'' []"
  let ?env = "example_resource_env ''SPDX''"
  have h: "\<not> IsCycloneDx (FormatInfo ?d)"
    by (simp add: IsCycloneDx_def example_document_def)
  have l: "LoadInputBOMFileAndDetectSchema ?env = (?d, None)"
    by (simp add: LoadInputBOMFileAndDetectSchema_def example_resource_env_def
          example_document_def NewBOM_def Let_def)
  from loadDocumentResources_unsupported_format [OF h, of ?env "[]" "[]" console example_flags] l
  obtain e e' where
    e: "loadDocumentResources ?env ?d [] [] = (?d, Some e, [])"
    and e': "ListResources ?env console example_flags \<lparr>ResourceType = []\<rparr> []
               = (Some e', console, ?d, [])"
    by blast
  have "e = UnsupportedFormatError [] ''bom.json'' ''SPDX'' ''license'' ''any''"
    using e h
    by (simp add: loadDocumentResources_def NewUnsupportedFormatForCommandError_def
          GetFilename_def example_document_def example_resource_env_def)
  moreover have "e' = e"
    using e e' l by (simp add: ListResources_def)
  ultimately show ?thesis using h l e e' by simp
qed

section \<open>Validation\<close>

subsection \<open>The retry loop\<close>

declare compile_loop.simps [simp del]

text \<open>
  The loop run from \<open>i = 0\<close>, written out: at most three attempts, the first success
  ends it.
\<close>

lemma compile_loop_unfold:
  "compile_loop env l 0 (a, b, tr) =
     (case NewSchema env 0 l of
        Inr c \<Rightarrow> (Some c, None, tr @ [EvNewSchema 0 l])
      | Inl e0 \<Rightarrow>
          (case NewSchema env 1 l of
             Inr c \<Rightarrow> (Some c, None, tr @ [EvNewSchema 0 l, EvWarnRetry, EvNewSchema 1 l])
           | Inl e1 \<Rightarrow>
               (case NewSchema env 2 l of
                  Inr c \<Rightarrow> (Some c, None,
                     tr @ [EvNewSchema 0 l, EvWarnRetry, EvNewSchema 1 l, EvWarnRetry,
                           EvNewSchema 2 l])
                | Inl e2 \<Rightarrow> (None, Some e2,
                     tr @ [EvNewSchema 0 l, EvWarnRetry, EvNewSchema 1 l, EvWarnRetry,
                           EvNewSchema 2 l, EvWarnRetry]))))"
  by (simp add: compile_loop.simps RETRY_def numeral_2_eq_2 split: sum.splits)

text \<open>
  From any loop counter: the loop adds at most \<open>RETRY - i\<close> attempts to the events it
  starts with.
\<close>

lemma compile_loop_attempts:
  "length (filter is_NewSchema (snd (snd (compile_loop env l i (a, b, tr)))))
     \<le> length (filter is_NewSchema tr) + (RETRY - i)"
proof (induction env l i "(a, b, tr)" arbitrary: a b tr rule: compile_loop.induct)
  case (1 env l i a b tr)
  show ?case
  proof (cases "i < RETRY")
    case False
    then show ?thesis by (simp add: compile_loop.simps)
  next
    case True
    show ?thesis
    proof (cases "NewSchema env i l")
      case (Inr c)
      with True show ?thesis by (simp add: compile_loop.simps)
    next
      case (Inl e)
      from "1" [OF True Inl] True Inl show ?thesis
        by (simp add: compile_loop.simps [of env l i])
    qed
  qed
qed

lemma attempt_events_simps:
  "attempt_events l 0 = []"
  "attempt_events l (Suc k) = attempt_events l k @ [EvNewSchema k l, EvWarnRetry]"
  by (simp_all add: attempt_events_def)

lemma attempt_events_mem:
  "ev \<in> set (attempt_events l k) \<longleftrightarrow> (ev = EvWarnRetry \<and> 0 < k) \<or> (\<exists>i<k. ev = EvNewSchema i l)"
  by (induction k) (auto simp: attempt_events_simps less_Suc_eq)

lemma attempt_events_count: "length (filter is_NewSchema (attempt_events l k)) = k"
  by (induction k) (simp_all add: attempt_events_simps)

subsection \<open>The steps of Validate\<close>

lemma is_tail_event_simps [simp]:
  "\<not> is_tail_event (EvReadFile f)"
  "\<not> is_tail_event (EvNewSchema i l)"
  "\<not> is_tail_event EvWarnRetry"
  "\<not> is_tail_event (EvSchemaValidate s l)"
  by (simp_all add: is_tail_event_def)

lemma tail_events_count:
  assumes "\<forall>ev \<in> set logs. is_tail_event ev"
  shows "filter is_NewSchema logs = []"
proof -
  have "\<And>ev. ev \<in> set logs \<Longrightarrow> \<not> is_NewSchema ev"
  proof -
    fix ev assume "ev \<in> set logs"
    with assms have "is_tail_event ev" by blast
    then show "\<not> is_NewSchema ev" by (cases ev) simp_all
  qed
  then show ?thesis by (simp add: filter_empty_conv)
qed

lemma validateCustom_shape:
  "validateCustom env document = (d, valid, err, evs) \<Longrightarrow>
     (\<forall>ev \<in> set evs. is_report_event ev) \<and> (err \<noteq> None \<longrightarrow> \<not> valid)"
  by (auto simp: validateCustom_def INVALID_def Let_def split: prod.splits option.splits if_splits)

lemma report_shape:
  "Validate_report env pf vf document v result tr = (r, tr') \<Longrightarrow>
     \<exists>evs. tr' = tr @ evs \<and> (\<forall>ev \<in> set evs. is_report_event ev)"
  by (auto simp: Validate_report_def Let_def dest!: validateCustom_shape
           split: prod.splits if_splits)

lemma report_violations:
  "Errors result \<noteq> [] \<Longrightarrow>
     fst (Validate_report env pf vf document v result tr) =
       Return False document (Errors result)
         (Some (InvalidSBOMError (MSG_SCHEMA_ERRORS env) None (Errors result)))"
  by (simp add: Validate_report_def Let_def INVALID_def NewInvalidSBOMError_def)

lemma evaluate_shape:
  "Validate_evaluate env pf vf document dl s tr = (r, tr') \<Longrightarrow>
     \<exists>evs. tr' = tr @ EvSchemaValidate s dl # evs \<and> (\<forall>ev \<in> set evs. is_report_event ev)"
  by (auto simp: Validate_evaluate_def Let_def dest!: report_shape
           split: prod.splits option.splits if_splits)

lemma evaluate_violations:
  "Schema_Validate env s dl = (Some result, None) \<Longrightarrow> Errors result \<noteq> [] \<Longrightarrow>
     fst (Validate_evaluate env pf vf document dl s tr) =
       Return False document (Errors result)
         (Some (InvalidSBOMError (MSG_SCHEMA_ERRORS env) None (Errors result)))"
  by (simp add: Validate_evaluate_def Let_def report_violations)

lemma evaluate_invalid:
  "fst (Validate_evaluate env pf vf document dl s tr) = Return valid d se (Some err) \<Longrightarrow>
     \<not> valid"
  by (auto simp: Validate_evaluate_def Validate_report_def Let_def INVALID_def
           dest: validateCustom_shape split: prod.splits option.splits if_splits)

lemma schemaLoader_shape:
  "Validate_schemaLoader env vf d = (n, lo, e, tr0) \<Longrightarrow>
     (if ForcedJsonSchemaFile vf \<noteq> [] then
        n = ''file://'' @ ForcedJsonSchemaFile vf \<and> lo = Some (ReferenceLoader n)
          \<and> e = None \<and> tr0 = []
      else
        n = File (SchemaInfo d) \<and> tr0 = [EvReadFile n]
          \<and> (case SBOMSchemaFiles_ReadFile env n of
                Inl errRead \<Rightarrow> lo = None \<and> e = Some errRead
              | Inr bSchema \<Rightarrow> lo = Some (BytesLoader bSchema) \<and> e = None))"
  by (auto simp: Validate_schemaLoader_def Let_def NewReferenceLoader_def NewBytesLoader_def
           split: sum.splits if_splits)

lemma schemaLoader_events:
  "Validate_schemaLoader env vf d = (n, lo, e, tr0) \<Longrightarrow>
     filter is_NewSchema tr0 = []
     \<and> (\<forall>ev \<in> set tr0. ev = EvReadFile n \<and> ForcedJsonSchemaFile vf = [])"
  by (drule schemaLoader_shape) (auto split: if_splits)

text \<open>
  Compilation either fails three times and returns, or succeeds at attempt \<open>k\<close> after
  \<open>k\<close> failures and goes on to the evaluation.
\<close>

lemma compile_paths:
  assumes "Validate_compile env pf vf d dl n l tr0 = (r, tr)"
  shows "((\<forall>i<3. isl (NewSchema env i l))
            \<and> r = Return False d [] (Some (ErrorString (''unable to load schema: `'' @ n @ ''`'')))
            \<and> tr = tr0 @ attempt_events l 3)
         \<or> (\<exists>k s. k < 3 \<and> (\<forall>i<k. isl (NewSchema env i l)) \<and> NewSchema env k l = Inr s
               \<and> (r, tr) = Validate_evaluate env pf vf d dl s
                              (tr0 @ attempt_events l k @ [EvNewSchema k l]))"
proof (cases "NewSchema env 0 l")
  case (Inr s)
  with assms have "(r, tr) = Validate_evaluate env pf vf d dl s
                               (tr0 @ attempt_events l 0 @ [EvNewSchema 0 l])"
    by (simp add: Validate_compile_def compile_loop_unfold attempt_events_simps)
  with Inr show ?thesis by (intro disjI2 exI[of _ 0] exI[of _ s]) simp
next
  case e0: (Inl e0)
  show ?thesis
  proof (cases "NewSchema env 1 l")
    case (Inr s)
    with assms e0 have "(r, tr) = Validate_evaluate env pf vf d dl s
                                    (tr0 @ attempt_events l 1 @ [EvNewSchema 1 l])"
      by (simp add: Validate_compile_def compile_loop_unfold attempt_events_simps)
    moreover have "\<forall>i<1. isl (NewSchema env i l)" using e0 by simp
    ultimately show ?thesis using Inr by (intro disjI2 exI[of _ 1] exI[of _ s]) simp
  next
    case e1: (Inl e1)
    have lt2: "\<forall>i<2. isl (NewSchema env i l)"
      using e0 e1 by (auto simp: less_2_cases_iff)
    show ?thesis
    proof (cases "NewSchema env 2 l")
      case (Inr s)
      with assms e0 e1 have "(r, tr) = Validate_evaluate env pf vf d dl s
                                         (tr0 @ attempt_events l 2 @ [EvNewSchema 2 l])"
        by (simp add: Validate_compile_def compile_loop_unfold attempt_events_simps
              numeral_2_eq_2)
      then show ?thesis using Inr lt2 by (intro disjI2 exI[of _ 2] exI[of _ s]) simp
    next
      case e2: (Inl e2)
      have "\<forall>i<3. isl (NewSchema env i l)"
      proof (intro allI impI)
        fix i :: nat assume "i < 3"
        then have "i = 0 \<or> i = 1 \<or> i = 2" by arith
        then show "isl (NewSchema env i l)" using e0 e1 e2 by auto
      qed
      moreover from assms e0 e1 e2
      have "r = Return False d [] (Some (ErrorString (''unable to load schema: `'' @ n @ ''`'')))
              \<and> tr = tr0 @ attempt_events l 3"
        by (auto simp: Validate_compile_def compile_loop_unfold attempt_events_simps
              numeral_3_eq_3 numeral_2_eq_2 INVALID_def)
      ultimately show ?thesis by blast
    qed
  qed
qed

text \<open>
  The body returns before compilation, with an error and at most the read of the embedded
  schema behind it, or it is the compilation step on the loader chosen.
\<close>

lemma body_paths:
  assumes "Validate_body env pf vf = (r, tr)"
  shows "(\<exists>d e. r = Return False d [] (Some e)
            \<and> (tr = [] \<or> (ForcedJsonSchemaFile vf = [] \<and> (\<exists>f. tr = [EvReadFile f]))))
         \<or> (\<exists>d n l tr0. Validate_schemaLoader env vf d = (n, Some l, None, tr0)
               \<and> (r, tr) = Validate_compile env pf vf d
                              (ReferenceLoader (''file://'' @ InputFile pf)) n l tr0)"
proof -
  obtain d lerr where load: "LoadInputSbomFileAndDetectSchema env = (d, lerr)"
    by (cases "LoadInputSbomFileAndDetectSchema env")
  obtain n lo e tr0 where sl: "Validate_schemaLoader env vf d = (n, lo, e, tr0)"
    by (cases "Validate_schemaLoader env vf d")
  note shape = schemaLoader_shape [OF sl]
  show ?thesis
  proof (cases "lerr = None \<and> \<not> (CustomValidation vf \<and> \<not> IsCycloneDx (FormatInfo d))
                  \<and> e = None \<and> lo \<noteq> None")
    case True
    then obtain l where "lo = Some l" by auto
    with True assms load sl
    have "(r, tr) = Validate_compile env pf vf d
                      (ReferenceLoader (''file://'' @ InputFile pf)) n l tr0"
      by (auto simp: Validate_body_def Let_def NewReferenceLoader_def PROTOCOL_PREFIX_FILE_def)
    with sl True \<open>lo = Some l\<close> show ?thesis by blast
  next
    case False
    with assms load sl shape
    have "\<exists>e. r = Return False d [] (Some e)
            \<and> (tr = [] \<or> (ForcedJsonSchemaFile vf = [] \<and> (\<exists>f. tr = [EvReadFile f])))"
      by (auto simp: Validate_body_def Let_def INVALID_def
               split: if_splits sum.splits option.splits)
    then show ?thesis by blast
  qed
qed

lemma Validate_fst: "fst (Validate env pf vf) = fst (Validate_body env pf vf)"
  by (simp add: Validate_def split: prod.splits validate_result.splits option.splits)

lemma validationError_log: "\<forall>ev \<in> set (validationError d v err). is_log_event ev"
proof (cases err)
  case None
  then show ?thesis by (simp add: validationError_def)
next
  case (Some e)
  then show ?thesis by (cases e) (auto simp: validationError_def)
qed

lemma Validate_snd:
  "\<exists>logs. snd (Validate env pf vf) = snd (Validate_body env pf vf) @ logs
          \<and> (\<forall>ev \<in> set logs. is_log_event ev)"
proof (cases "Validate_body env pf vf")
  case (Pair r tr)
  show ?thesis
  proof (cases "\<exists>v d se e. r = Return v d se (Some e)")
    case True
    then obtain v d se e where "r = Return v d se (Some e)" by blast
    with Pair have "snd (Validate env pf vf) = tr @ validationError d v (Some e)"
      by (simp add: Validate_def)
    with Pair validationError_log [of d v "Some e"] show ?thesis by auto
  next
    case False
    with Pair have "snd (Validate env pf vf) = tr @ []"
      by (auto simp: Validate_def split: validate_result.splits option.splits)
    with Pair show ?thesis by (intro exI[of _ "[]"]) simp
  qed
qed

text \<open>
  Every run of \<open>Validate\<close> is of one of three kinds: it returns before compilation; all
  three compilation attempts fail; or attempt \<open>k\<close> succeeds and the evaluation decides.
  In each case the events are known up to what reporting and logging add at the end.
\<close>

lemma Validate_paths:
  "(\<exists>d e logs. fst (Validate env pf vf) = Return False d [] (Some e)
       \<and> (\<forall>ev \<in> set logs. is_tail_event ev)
       \<and> (snd (Validate env pf vf) = logs
            \<or> (ForcedJsonSchemaFile vf = []
                 \<and> (\<exists>f. snd (Validate env pf vf) = EvReadFile f # logs))))
   \<or> (\<exists>d n l tr0 logs. Validate_schemaLoader env vf d = (n, Some l, None, tr0)
         \<and> (\<forall>i<3. isl (NewSchema env i l))
         \<and> fst (Validate env pf vf)
             = Return False d [] (Some (ErrorString (''unable to load schema: `'' @ n @ ''`'')))
         \<and> (\<forall>ev \<in> set logs. is_tail_event ev)
         \<and> snd (Validate env pf vf) = tr0 @ attempt_events l 3 @ logs)
   \<or> (\<exists>d n l tr0 k s dl logs. Validate_schemaLoader env vf d = (n, Some l, None, tr0)
         \<and> k < 3 \<and> (\<forall>i<k. isl (NewSchema env i l)) \<and> NewSchema env k l = Inr s
         \<and> fst (Validate env pf vf)
             = fst (Validate_evaluate env pf vf d dl s
                      (tr0 @ attempt_events l k @ [EvNewSchema k l]))
         \<and> (\<forall>ev \<in> set logs. is_tail_event ev)
         \<and> snd (Validate env pf vf)
             = tr0 @ attempt_events l k @ [EvNewSchema k l, EvSchemaValidate s dl] @ logs)"
  (is "?early \<or> ?failed \<or> ?evaluated")
proof -
  obtain r tr where body: "Validate_body env pf vf = (r, tr)"
    by (cases "Validate_body env pf vf")
  obtain logs where snd_eq: "snd (Validate env pf vf) = tr @ logs"
    and logs: "\<forall>ev \<in> set logs. is_log_event ev"
    using Validate_snd [of env pf vf] body by auto
  have fst_eq: "fst (Validate env pf vf) = r"
    using Validate_fst [of env pf vf] body by simp
  from body_paths [OF body] show ?thesis
  proof (elim disjE exE conjE)
    fix d e assume "r = Return False d [] (Some e)" "tr = []"
    with fst_eq snd_eq logs have ?early
      by (intro exI[of _ d] exI[of _ e] exI[of _ logs]) (simp add: is_tail_event_def)
    then show ?thesis ..
  next
    fix d e f
    assume "r = Return False d [] (Some e)" "ForcedJsonSchemaFile vf = []" "tr = [EvReadFile f]"
    with fst_eq snd_eq logs have ?early
      by (intro exI[of _ d] exI[of _ e] exI[of _ logs]) (simp add: is_tail_event_def)
    then show ?thesis ..
  next
    fix d n l tr0
    assume sl: "Validate_schemaLoader env vf d = (n, Some l, None, tr0)"
      and c: "(r, tr) = Validate_compile env pf vf d
                          (ReferenceLoader (''file://'' @ InputFile pf)) n l tr0"
    from compile_paths [OF c [symmetric]] show ?thesis
    proof (elim disjE exE conjE)
      assume "\<forall>i<3. isl (NewSchema env i l)"
        "r = Return False d [] (Some (ErrorString (''unable to load schema: `'' @ n @ ''`'')))"
        "tr = tr0 @ attempt_events l 3"
      with sl fst_eq snd_eq logs have ?failed
        by (intro exI[of _ d] exI[of _ n] exI[of _ l] exI[of _ tr0] exI[of _ logs])
           (simp add: is_tail_event_def)
      then show ?thesis by blast
    next
      fix k s
      assume k: "k < 3" "\<forall>i<k. isl (NewSchema env i l)" "NewSchema env k l = Inr s"
        and ev: "(r, tr) = Validate_evaluate env pf vf d
                             (ReferenceLoader (''file://'' @ InputFile pf)) s
                             (tr0 @ attempt_events l k @ [EvNewSchema k l])"
      from evaluate_shape [OF ev [symmetric]] obtain evs where
        tr: "tr = (tr0 @ attempt_events l k @ [EvNewSchema k l])
               @ EvSchemaValidate s (ReferenceLoader (''file://'' @ InputFile pf)) # evs"
        and evs: "\<forall>ev \<in> set evs. is_report_event ev" by blast
      have "fst (Validate env pf vf)
             = fst (Validate_evaluate env pf vf d (ReferenceLoader (''file://'' @ InputFile pf)) s
                      (tr0 @ attempt_events l k @ [EvNewSchema k l]))"
        using fst_eq ev [symmetric] by simp
      moreover have "\<forall>ev \<in> set (evs @ logs). is_tail_event ev"
        using evs logs by (auto simp: is_tail_event_def)
      moreover have "snd (Validate env pf vf)
             = tr0 @ attempt_events l k
                 @ [EvNewSchema k l,
                    EvSchemaValidate s (ReferenceLoader (''file://'' @ InputFile pf))]
                 @ (evs @ logs)"
        using snd_eq tr by simp
      ultimately have ?evaluated using sl k by blast
      then show ?thesis by blast
    qed
  qed
qed

lemmas example_defs =
  example_env_def example_flags_def example_validate_flags_def example_document_def

lemmas Validate_defs =
  Validate_def Validate_body_def LoadInputSbomFileAndDetectSchema_def
  LoadInputBOMFileAndDetectSchema_def Validate_schemaLoader_def Validate_compile_def
  Validate_evaluate_def Validate_report_def NewBOM_def IsCycloneDx_def
  NewReferenceLoader_def NewBytesLoader_def INVALID_def VALID_def validationError_def
  NewInvalidSBOMError_def PROTOCOL_PREFIX_FILE_def compile_loop_unfold Let_def

subsection \<open>The claims about Validate\<close>

text \<open>
  Claim C3. When the bytes of the input file are not valid JSON syntax, that is,
  the JSON decoder reports a syntax error on them, \<open>Validate\<close> returns invalid, the
  document with these bytes, an empty list of schema errors and the decoder's syntax
  error itself, which is not an \<open>InvalidSBOMError\<close>; no schema is read, compiled or
  evaluated, and the deferred closure shows the error in the JSON text.
\<close>

theorem Validate_syntax_error:
  assumes "os_ReadFile env (GlobalFlags_InputFile env) = Inr bytes"
    and "json_Unmarshal_document env bytes = Inl e"
    and "IsJsonSyntaxError e"
  shows "Validate env pf vf
           = (Return False ((NewBOM (GlobalFlags_InputFile env))\<lparr>rawBytes := bytes\<rparr>) []
                (Some e),
              [EvDisplayJSONErrorDetails, EvLogValid False])
         \<and> \<not> IsInvalidSBOMError e"
  using assms
  by (cases e)
     (simp_all add: Validate_def Validate_body_def LoadInputSbomFileAndDetectSchema_def
        LoadInputBOMFileAndDetectSchema_def Let_def INVALID_def validationError_def)

theorem Validate_syntax_error_witness:
  "os_ReadFile (example_env ''{'' (\<lambda>b. Inl (JsonSyntaxError 1)) [] (\<lambda>i l. Inr (Schema l))
                  (None, None))
     (GlobalFlags_InputFile (example_env ''{'' (\<lambda>b. Inl (JsonSyntaxError 1)) []
                               (\<lambda>i l. Inr (Schema l)) (None, None))) = Inr ''{''
   \<and> json_Unmarshal_document (example_env ''{'' (\<lambda>b. Inl (JsonSyntaxError 1)) []
                                (\<lambda>i l. Inr (Schema l)) (None, None)) ''{''
       = Inl (JsonSyntaxError 1)
   \<and> IsJsonSyntaxError (JsonSyntaxError 1)
   \<and> Validate (example_env ''{'' (\<lambda>b. Inl (JsonSyntaxError 1)) [] (\<lambda>i l. Inr (Schema l))
                 (None, None))
        example_flags (example_validate_flags [])
       = (Return False ((NewBOM ''bom.json'')\<lparr>rawBytes := ''{''\<rparr>) []
            (Some (JsonSyntaxError 1)),
          [EvDisplayJSONErrorDetails, EvLogValid False])"
proof -
  let ?env = "example_env ''{'' (\<lambda>b. Inl (JsonSyntaxError 1)) [] (\<lambda>i l. Inr (Schema l))
                (None, None)"
  have r: "os_ReadFile ?env (GlobalFlags_InputFile ?env) = Inr ''{''"
    by (simp add: example_env_def)
  have p: "json_Unmarshal_document ?env ''{'' = Inl (JsonSyntaxError 1)"
    by (simp add: example_env_def)
  have s: "IsJsonSyntaxError (JsonSyntaxError 1)"
    by simp
  from Validate_syntax_error [OF r p s, of example_flags "example_validate_flags []"] r p s
  show ?thesis by (simp add: example_env_def)
qed

text \<open>
  Claim C4. When \<open>Validate\<close> has evaluated the document against its schema, the
  evaluation has returned a result and no error, and the result holds at least one
  violation, then \<open>Validate\<close> returns invalid, exactly these violations (a non-empty
  list) and an \<open>InvalidSBOMError\<close> that carries them.
\<close>

theorem Validate_schema_violations:
  assumes "EvSchemaValidate s l \<in> set (snd (Validate env pf vf))"
    and "Schema_Validate env s l = (Some result, None)"
    and "Errors result \<noteq> []"
  shows "\<exists>document. fst (Validate env pf vf)
           = Return False document (Errors result)
               (Some (InvalidSBOMError (MSG_SCHEMA_ERRORS env) None (Errors result)))"
  using Validate_paths [of env pf vf]
proof (elim disjE exE conjE)
  fix d n l' tr0 k s' dl logs
  assume sl: "Validate_schemaLoader env vf d = (n, Some l', None, tr0)"
    and f: "fst (Validate env pf vf)
             = fst (Validate_evaluate env pf vf d dl s'
                      (tr0 @ attempt_events l' k @ [EvNewSchema k l']))"
    and logs: "\<forall>ev \<in> set logs. is_tail_event ev"
    and tr: "snd (Validate env pf vf)
             = tr0 @ attempt_events l' k @ [EvNewSchema k l', EvSchemaValidate s' dl] @ logs"
  from assms(1) tr schemaLoader_events [OF sl] logs have "s = s' \<and> l = dl"
    by (auto simp: attempt_events_mem)
  with assms(2,3) f show ?thesis
    by (simp add: evaluate_violations)
next
  fix d n l' tr0 logs
  assume sl: "Validate_schemaLoader env vf d = (n, Some l', None, tr0)"
    and logs: "\<forall>ev \<in> set logs. is_tail_event ev"
    and tr: "snd (Validate env pf vf) = tr0 @ attempt_events l' 3 @ logs"
  from assms(1) tr schemaLoader_events [OF sl] logs have False
    by (auto simp: attempt_events_mem)
  then show ?thesis ..
qed (use assms(1) in auto)

theorem Validate_schema_violations_witness:
  "EvSchemaValidate (Schema (BytesLoader ''{}'')) (ReferenceLoader ''file://bom.json'')
     \<in> set (snd (Validate
          (example_env ''{}'' (\<lambda>b. Inr []) ''CycloneDX'' (\<lambda>i l. Inr (Schema l))
             (Some \<lparr>Valid = False, Errors = [ResultError ''(root)'' ''name is required'' []]\<rparr>,
              None))
          example_flags (example_validate_flags [])))
   \<and> fst (Validate
          (example_env ''{}'' (\<lambda>b. Inr []) ''CycloneDX'' (\<lambda>i l. Inr (Schema l))
             (Some \<lparr>Valid = False, Errors = [ResultError ''(root)'' ''name is required'' []]\<rparr>,
              None))
          example_flags (example_validate_flags []))
       = Return False (example_document ''{}'' ''CycloneDX'' [])
           [ResultError ''(root)'' ''name is required'' []]
           (Some (InvalidSBOMError ''schema errors found'' None
                    [ResultError ''(root)'' ''name is required'' []]))"
proof -
  let ?result = "\<lparr>Valid = False, Errors = [ResultError ''(root)'' ''name is required'' []]\<rparr>"
  let ?env = "example_env ''{}'' (\<lambda>b. Inr []) ''CycloneDX'' (\<lambda>i l. Inr (Schema l))
                (Some ?result, None)"
  let ?s = "Schema (BytesLoader ''{}'')"
  let ?l = "ReferenceLoader ''file://bom.json''"
  have tr: "snd (Validate ?env example_flags (example_validate_flags []))
      = [EvReadFile ''schema.json'', EvNewSchema 0 (BytesLoader ''{}''), EvSchemaValidate ?s ?l,
         EvFormatSchemaErrors [ResultError ''(root)'' ''name is required'' []] ''txt'',
         EvLogError, EvLogValid False]"
    by (simp add: example_defs Validate_defs)
  have doc: "fst (Validate ?env example_flags (example_validate_flags []))
      = Return False (example_document ''{}'' ''CycloneDX'' [])
           [ResultError ''(root)'' ''name is required'' []]
           (Some (InvalidSBOMError ''schema errors found'' None
                    [ResultError ''(root)'' ''name is required'' []]))"
    by (simp add: example_defs Validate_defs)
  have h1: "EvSchemaValidate ?s ?l \<in> set (snd (Validate ?env example_flags (example_validate_flags [])))"
    by (simp add: tr)
  have h2: "Schema_Validate ?env ?s ?l = (Some ?result, None)"
    by (simp add: example_env_def)
  have h3: "Errors ?result \<noteq> []"
    by simp
  from Validate_schema_violations [OF h1 h2 h3] h1 doc show ?thesis by simp
qed

text \<open>
  Claim C5. In every run of \<open>Validate\<close> the schema is compiled at most three times; no
  attempt follows a successful one; and when compilation has started and each of the
  three attempts on its loader fails, \<open>Validate\<close> returns invalid with the error
  ``unable to load schema'' and the document is never evaluated.
\<close>

theorem Validate_compile_retry:
  "length (filter is_NewSchema (snd (Validate env pf vf))) \<le> 3
   \<and> (\<forall>i l s. EvNewSchema i l \<in> set (snd (Validate env pf vf)) \<and> NewSchema env i l = Inr s
         \<longrightarrow> (\<forall>j l'. EvNewSchema j l' \<in> set (snd (Validate env pf vf)) \<longrightarrow> j \<le> i))
   \<and> (\<forall>l. EvNewSchema 0 l \<in> set (snd (Validate env pf vf)) \<and> (\<forall>i<3. isl (NewSchema env i l))
         \<longrightarrow> (\<exists>d n. fst (Validate env pf vf)
                       = Return False d []
                           (Some (ErrorString (''unable to load schema: `'' @ n @ ''`''))))
             \<and> (\<forall>s dl. EvSchemaValidate s dl \<notin> set (snd (Validate env pf vf))))"
  (is "?bound \<and> ?exit \<and> ?fail")
  using Validate_paths [of env pf vf]
proof (elim disjE exE conjE)
  fix d e logs
  assume logs: "\<forall>ev \<in> set logs. is_tail_event ev"
    and tr: "snd (Validate env pf vf) = logs"
  from logs have "\<And>i l. EvNewSchema i l \<notin> set logs" by auto
  with tr tail_events_count [OF logs] show ?thesis by simp
next
  fix d e logs f
  assume logs: "\<forall>ev \<in> set logs. is_tail_event ev"
    and tr: "snd (Validate env pf vf) = EvReadFile f # logs"
  from logs have "\<And>i l. EvNewSchema i l \<notin> set logs" by auto
  with tr tail_events_count [OF logs] show ?thesis by simp
next
  fix d n l tr0 logs
  assume sl: "Validate_schemaLoader env vf d = (n, Some l, None, tr0)"
    and fails: "\<forall>i<3. isl (NewSchema env i l)"
    and f: "fst (Validate env pf vf)
              = Return False d [] (Some (ErrorString (''unable to load schema: `'' @ n @ ''`'')))"
    and logs: "\<forall>ev \<in> set logs. is_tail_event ev"
    and tr: "snd (Validate env pf vf) = tr0 @ attempt_events l 3 @ logs"
  note pre = schemaLoader_events [OF sl]
  have mem: "\<And>j l'. EvNewSchema j l' \<in> set (snd (Validate env pf vf)) \<longleftrightarrow> j < 3 \<and> l' = l"
    using tr pre logs by (auto simp: attempt_events_mem)
  have ?bound
    using tr pre tail_events_count [OF logs] by (simp add: attempt_events_count)
  moreover have ?exit
  proof (intro allI impI, elim conjE)
    fix i l' s j l''
    assume "EvNewSchema i l' \<in> set (snd (Validate env pf vf))" "NewSchema env i l' = Inr s"
    with mem fails have False by auto
    then show "j \<le> i" ..
  qed
  moreover have ?fail
    using f tr pre logs by (auto simp: attempt_events_mem)
  ultimately show ?thesis by blast
next
  fix d n l tr0 k s dl logs
  assume sl: "Validate_schemaLoader env vf d = (n, Some l, None, tr0)"
    and k: "k < 3" and fails: "\<forall>i<k. isl (NewSchema env i l)" and ok: "NewSchema env k l = Inr s"
    and logs: "\<forall>ev \<in> set logs. is_tail_event ev"
    and tr: "snd (Validate env pf vf)
               = tr0 @ attempt_events l k @ [EvNewSchema k l, EvSchemaValidate s dl] @ logs"
  note pre = schemaLoader_events [OF sl]
  have mem: "\<And>j l'. EvNewSchema j l' \<in> set (snd (Validate env pf vf)) \<longleftrightarrow> j \<le> k \<and> l' = l"
    using tr pre logs by (auto simp: attempt_events_mem)
  have ?bound
    using tr pre k tail_events_count [OF logs] by (simp add: attempt_events_count)
  moreover have ?exit
  proof (intro allI impI, elim conjE)
    fix i l' s' j l''
    assume i: "EvNewSchema i l' \<in> set (snd (Validate env pf vf))" "NewSchema env i l' = Inr s'"
      and j: "EvNewSchema j l'' \<in> set (snd (Validate env pf vf))"
    from i mem have "i \<le> k" "l' = l" by auto
    with i(2) fails have "i = k" by (cases "i < k") auto
    with j mem show "j \<le> i" by auto
  qed
  moreover have ?fail
  proof (intro allI impI, elim conjE)
    fix l'
    assume "EvNewSchema 0 l' \<in> set (snd (Validate env pf vf))" "\<forall>i<3. isl (NewSchema env i l')"
    with mem k ok have False by auto
    then show "(\<exists>d n. fst (Validate env pf vf)
                       = Return False d []
                           (Some (ErrorString (''unable to load schema: `'' @ n @ ''`''))))
             \<and> (\<forall>s dl. EvSchemaValidate s dl \<notin> set (snd (Validate env pf vf)))" ..
  qed
  ultimately show ?thesis by blast
qed

text \<open>
  A schema whose compilation fails at every attempt: three attempts, two of them after
  a warning, then the error; no evaluation.
\<close>

theorem Validate_compile_retry_witness:
  "Validate (example_env ''{}'' (\<lambda>b. Inr []) ''CycloneDX'' (\<lambda>i l. Inl (LibraryError ''503''))
               (None, None))
     example_flags (example_validate_flags [])
     = (Return False (example_document ''{}'' ''CycloneDX'' []) []
          (Some (ErrorString ''unable to load schema: `schema.json`'')),
        [EvReadFile ''schema.json'',
         EvNewSchema 0 (BytesLoader ''{}''), EvWarnRetry,
         EvNewSchema 1 (BytesLoader ''{}''), EvWarnRetry,
         EvNewSchema 2 (BytesLoader ''{}''), EvWarnRetry,
         EvLogError, EvLogValid False])
   \<and> isl (NewSchema (example_env ''{}'' (\<lambda>b. Inr []) ''CycloneDX''
                      (\<lambda>i l. Inl (LibraryError ''503'')) (None, None))
           0 (BytesLoader ''{}''))
   \<and> isl (NewSchema (example_env ''{}'' (\<lambda>b. Inr []) ''CycloneDX''
                      (\<lambda>i l. Inl (LibraryError ''503'')) (None, None))
           1 (BytesLoader ''{}''))
   \<and> isl (NewSchema (example_env ''{}'' (\<lambda>b. Inr []) ''CycloneDX''
                      (\<lambda>i l. Inl (LibraryError ''503'')) (None, None))
           2 (BytesLoader ''{}''))
   \<and> length (filter is_NewSchema
        (snd (Validate (example_env ''{}'' (\<lambda>b. Inr []) ''CycloneDX''
                          (\<lambda>i l. Inl (LibraryError ''503'')) (None, None))
                example_flags (example_validate_flags [])))) \<le> 3
   \<and> (\<forall>s dl. EvSchemaValidate s dl
         \<notin> set (snd (Validate (example_env ''{}'' (\<lambda>b. Inr []) ''CycloneDX''
                                  (\<lambda>i l. Inl (LibraryError ''503'')) (None, None))
                        example_flags (example_validate_flags []))))"
proof -
  let ?env = "example_env ''{}'' (\<lambda>b. Inr []) ''CycloneDX'' (\<lambda>i l. Inl (LibraryError ''503''))
                (None, None)"
  let ?run = "Validate ?env example_flags (example_validate_flags [])"
  have run: "?run
     = (Return False (example_document ''{}'' ''CycloneDX'' []) []
          (Some (ErrorString ''unable to load schema: `schema.json`'')),
        [EvReadFile ''schema.json'',
         EvNewSchema 0 (BytesLoader ''{}''), EvWarnRetry,
         EvNewSchema 1 (BytesLoader ''{}''), EvWarnRetry,
         EvNewSchema 2 (BytesLoader ''{}''), EvWarnRetry,
         EvLogError, EvLogValid False])"
    by (simp add: example_defs Validate_defs)
  have started: "EvNewSchema 0 (BytesLoader ''{}'') \<in> set (snd ?run)"
    by (simp add: run)
  have fails: "\<forall>i<3. isl (NewSchema ?env i (BytesLoader ''{}''))"
    by (simp add: example_env_def)
  from Validate_compile_retry [of ?env example_flags "example_validate_flags []"]
  have bound: "length (filter is_NewSchema (snd ?run)) \<le> 3"
    and fail: "\<forall>l. EvNewSchema 0 l \<in> set (snd ?run) \<and> (\<forall>i<3. isl (NewSchema ?env i l))
         \<longrightarrow> (\<exists>d n. fst ?run
                       = Return False d []
                           (Some (ErrorString (''unable to load schema: `'' @ n @ ''`''))))
             \<and> (\<forall>s dl. EvSchemaValidate s dl \<notin> set (snd ?run))"
    by blast+
  from fail started fails have "\<forall>s dl. EvSchemaValidate s dl \<notin> set (snd ?run)"
    by blast
  moreover have "isl (NewSchema ?env 0 (BytesLoader ''{}''))"
    "isl (NewSchema ?env 1 (BytesLoader ''{}''))" "isl (NewSchema ?env 2 (BytesLoader ''{}''))"
    by (simp_all add: example_env_def)
  ultimately show ?thesis using run bound by blast
qed

text \<open>
  Claim C8. When the forced schema file is a non-empty path, the schema loader is the
  reference loader of \<open>file://\<close> followed by that path, whatever the environment and the
  document are; \<open>Validate\<close> never reads an embedded schema file, and every compilation
  attempt is on that loader. So a read of the embedded schema of the document's format
  and version can only occur when no path is forced.
\<close>

theorem Validate_forced_schema:
  assumes "ForcedJsonSchemaFile vf \<noteq> []"
  shows "(\<forall>env' d. Validate_schemaLoader env' vf d
                = (''file://'' @ ForcedJsonSchemaFile vf,
                   Some (ReferenceLoader (''file://'' @ ForcedJsonSchemaFile vf)), None, []))
         \<and> (\<forall>f. EvReadFile f \<notin> set (snd (Validate env pf vf)))
         \<and> (\<forall>i l. EvNewSchema i l \<in> set (snd (Validate env pf vf))
               \<longrightarrow> l = ReferenceLoader (''file://'' @ ForcedJsonSchemaFile vf))"
proof -
  have sl: "\<And>env' d. Validate_schemaLoader env' vf d
                = (''file://'' @ ForcedJsonSchemaFile vf,
                   Some (ReferenceLoader (''file://'' @ ForcedJsonSchemaFile vf)), None, [])"
    using assms by (simp add: Validate_schemaLoader_def Let_def NewReferenceLoader_def)
  have "(\<forall>f. EvReadFile f \<notin> set (snd (Validate env pf vf)))
         \<and> (\<forall>i l. EvNewSchema i l \<in> set (snd (Validate env pf vf))
               \<longrightarrow> l = ReferenceLoader (''file://'' @ ForcedJsonSchemaFile vf))"
    using Validate_paths [of env pf vf]
  proof (elim disjE exE conjE)
    fix d e logs
    assume "\<forall>ev \<in> set logs. is_tail_event ev" "snd (Validate env pf vf) = logs"
    then show ?thesis by auto
  next
    fix d e logs f
    assume "ForcedJsonSchemaFile vf = []"
    with assms show ?thesis by simp
  next
    fix d n l tr0 logs
    assume "Validate_schemaLoader env vf d = (n, Some l, None, tr0)"
      "\<forall>ev \<in> set logs. is_tail_event ev"
      "snd (Validate env pf vf) = tr0 @ attempt_events l 3 @ logs"
    with sl [of env d] show ?thesis by (auto simp: attempt_events_mem)
  next
    fix d n l tr0 k s dl logs
    assume "Validate_schemaLoader env vf d = (n, Some l, None, tr0)"
      "\<forall>ev \<in> set logs. is_tail_event ev"
      "snd (Validate env pf vf)
               = tr0 @ attempt_events l k @ [EvNewSchema k l, EvSchemaValidate s dl] @ logs"
    with sl [of env d] show ?thesis by (auto simp: attempt_events_mem)
  qed
  with sl show ?thesis by blast
qed

text \<open>
  A forced schema that compiles at the third attempt, and the same run without a forced
  schema, which reads the embedded file.
\<close>

theorem Validate_forced_schema_witness:
  "ForcedJsonSchemaFile (example_validate_flags ''my.json'') \<noteq> []
   \<and> (\<forall>f. EvReadFile f \<notin> set (snd (Validate
          (example_env ''{}'' (\<lambda>b. Inr []) ''CycloneDX''
             (\<lambda>i l. if i < 2 then Inl (LibraryError ''503'') else Inr (Schema l))
             (Some \<lparr>Valid = True, Errors = []\<rparr>, None))
          example_flags (example_validate_flags ''my.json''))))
   \<and> Validate
        (example_env ''{}'' (\<lambda>b. Inr []) ''CycloneDX''
           (\<lambda>i l. if i < 2 then Inl (LibraryError ''503'') else Inr (Schema l))
           (Some \<lparr>Valid = True, Errors = []\<rparr>, None))
        example_flags (example_validate_flags ''my.json'')
       = (Return True (example_document ''{}'' ''CycloneDX'' []) [] None,
          [EvNewSchema 0 (ReferenceLoader ''file://my.json''), EvWarnRetry,
           EvNewSchema 1 (ReferenceLoader ''file://my.json''), EvWarnRetry,
           EvNewSchema 2 (ReferenceLoader ''file://my.json''),
           EvSchemaValidate (Schema (ReferenceLoader ''file://my.json''))
             (ReferenceLoader ''file://bom.json'')])
   \<and> snd (Validate
        (example_env ''{}'' (\<lambda>b. Inr []) ''CycloneDX''
           (\<lambda>i l. if i < 2 then Inl (LibraryError ''503'') else Inr (Schema l))
           (Some \<lparr>Valid = True, Errors = []\<rparr>, None))
        example_flags (example_validate_flags []))
       = [EvReadFile ''schema.json'',
          EvNewSchema 0 (BytesLoader ''{}''), EvWarnRetry,
          EvNewSchema 1 (BytesLoader ''{}''), EvWarnRetry,
          EvNewSchema 2 (BytesLoader ''{}''),
          EvSchemaValidate (Schema (BytesLoader ''{}'')) (ReferenceLoader ''file://bom.json'')]"
proof -
  let ?env = "example_env ''{}'' (\<lambda>b. Inr []) ''CycloneDX''
           (\<lambda>i l. if i < 2 then Inl (LibraryError ''503'') else Inr (Schema l))
           (Some \<lparr>Valid = True, Errors = []\<rparr>, None)"
  have h: "ForcedJsonSchemaFile (example_validate_flags ''my.json'') \<noteq> []"
    by (simp add: example_validate_flags_def)
  have forced: "Validate ?env example_flags (example_validate_flags ''my.json'')
       = (Return True (example_document ''{}'' ''CycloneDX'' []) [] None,
          [EvNewSchema 0 (ReferenceLoader ''file://my.json''), EvWarnRetry,
           EvNewSchema 1 (ReferenceLoader ''file://my.json''), EvWarnRetry,
           EvNewSchema 2 (ReferenceLoader ''file://my.json''),
           EvSchemaValidate (Schema (ReferenceLoader ''file://my.json''))
             (ReferenceLoader ''file://bom.json'')])"
    by (simp add: example_defs Validate_defs)
  have inferred: "snd (Validate ?env example_flags (example_validate_flags []))
       = [EvReadFile ''schema.json'',
          EvNewSchema 0 (BytesLoader ''{}''), EvWarnRetry,
          EvNewSchema 1 (BytesLoader ''{}''), EvWarnRetry,
          EvNewSchema 2 (BytesLoader ''{}''),
          EvSchemaValidate (Schema (BytesLoader ''{}'')) (ReferenceLoader ''file://bom.json'')]"
    by (simp add: example_defs Validate_defs)
  from Validate_forced_schema [OF h, of ?env example_flags]
  have "\<forall>f. EvReadFile f \<notin> set (snd (Validate ?env example_flags
                                            (example_validate_flags ''my.json'')))"
    by blast
  with h forced inferred show ?thesis by blast
qed

text \<open>
  Claim C10. Whenever \<open>Validate\<close> returns an error, on whichever path, the validity it
  returns is false; so the deferred closure never logs the ``invalid state'' it checks
  for.
\<close>

theorem Validate_error_implies_invalid:
  assumes "fst (Validate env pf vf) = Return valid document schemaErrors (Some err)"
  shows "\<not> valid \<and> EvLogInvalidState \<notin> set (validationError document valid (Some err))"
proof -
  have "\<not> valid"
    using Validate_paths [of env pf vf]
  proof (elim disjE exE conjE)
    fix d n l tr0 k s dl logs
    assume "fst (Validate env pf vf)
             = fst (Validate_evaluate env pf vf d dl s
                      (tr0 @ attempt_events l k @ [EvNewSchema k l]))"
    with assms have "fst (Validate_evaluate env pf vf d dl s
                            (tr0 @ attempt_events l k @ [EvNewSchema k l]))
             = Return valid document schemaErrors (Some err)" by simp
    then show ?thesis by (rule evaluate_invalid)
  qed (use assms in auto)
  then show ?thesis
    by (cases err) (simp_all add: validationError_def)
qed

text \<open>
  An evaluation that reports the document valid and fails with an internal error: the
  verdict is overridden.
\<close>

theorem Validate_error_implies_invalid_witness:
  "fst (Validate
          (example_env ''{}'' (\<lambda>b. Inr []) ''CycloneDX'' (\<lambda>i l. Inr (Schema l))
             (Some \<lparr>Valid = True, Errors = []\<rparr>, Some (LibraryError ''internal'')))
          example_flags (example_validate_flags []))
     = Return False (example_document ''{}'' ''CycloneDX'' []) []
         (Some (LibraryError ''internal''))
   \<and> EvLogInvalidState
        \<notin> set (validationError (example_document ''{}'' ''CycloneDX'' []) False
                  (Some (LibraryError ''internal'')))"
proof -
  let ?env = "example_env ''{}'' (\<lambda>b. Inr []) ''CycloneDX'' (\<lambda>i l. Inr (Schema l))
             (Some \<lparr>Valid = True, Errors = []\<rparr>, Some (LibraryError ''internal''))"
  have run: "fst (Validate ?env example_flags (example_validate_flags []))
     = Return False (example_document ''{}'' ''CycloneDX'' []) []
         (Some (LibraryError ''internal''))"
    by (simp add: example_defs Validate_defs)
  from Validate_error_implies_invalid [OF run] run show ?thesis by simp
qed


end
